theory Spec2Isabelle
  imports Complex_Main "HOL-Library.Sublist" "HOL-Library.AList"
begin

section \<open>Export of a StarDist model to the bioimage.io format\<close>

text \<open>
  A shallow embedding of \<^verbatim>\<open>stardist/bioimageio_utils.py\<close>. Exceptions are values of
  the type \<open>error\<close>, the file system and the log of packaging calls are an explicit
  \<open>world\<close> that every effectful function takes and returns, and the code of other
  packages (csbdeep, tensorflow, numpy, the bioimage.io builder, the methods of the model
  object) is a parameter: a field of the record \<open>env\<close> or of the record \<open>model\<close>.
\<close>

subsection \<open>Exceptions\<close>

datatype error =
    RuntimeError string
  | ValueError string
  | NotImplementedError string
  | AssertionError
  | TypeError string
  | FileExistsError string
  | Raised string

subsection \<open>Strings\<close>

text \<open>
  A Python \<open>str\<close> is a \<open>string\<close>. The case conversions act on the ASCII letters, which
  are the letters of an axes string.
\<close>

definition uppers :: string where
  "uppers = ''ABCDEFGHIJKLMNOPQRSTUVWXYZ''"

definition lowers :: string where
  "lowers = ''abcdefghijklmnopqrstuvwxyz''"

definition lower_char :: "char \<Rightarrow> char" where
  "lower_char c = (case map_of (zip uppers lowers) c of Some d \<Rightarrow> d | None \<Rightarrow> c)"

definition upper_char :: "char \<Rightarrow> char" where
  "upper_char c = (case map_of (zip lowers uppers) c of Some d \<Rightarrow> d | None \<Rightarrow> c)"

definition lower :: "string \<Rightarrow> string" where
  "lower s = map lower_char s"

definition upper :: "string \<Rightarrow> string" where
  "upper s = map upper_char s"

text \<open>\<^verbatim>\<open>s.replace(a, b)\<close> for one-character \<open>a\<close> and \<open>b\<close>, and \<^verbatim>\<open>s.replace(a, "")\<close>.\<close>

definition replace_char :: "char \<Rightarrow> char \<Rightarrow> string \<Rightarrow> string" where
  "replace_char a b s = map (\<lambda>c. if c = a then b else c) s"

definition remove_char :: "char \<Rightarrow> string \<Rightarrow> string" where
  "remove_char a s = filter (\<lambda>c. c \<noteq> a) s"

text \<open>\<^verbatim>\<open>sep.join(xs)\<close>.\<close>

fun join :: "string \<Rightarrow> string list \<Rightarrow> string" where
  "join sep [] = []"
| "join sep [x] = x"
| "join sep (x # y # ys) = x @ sep @ join sep (y # ys)"

text \<open>\<^verbatim>\<open>s.split(c)\<close> for a one-character separator: never an empty list.\<close>

fun split_on :: "char \<Rightarrow> string \<Rightarrow> string list" where
  "split_on c [] = [[]]"
| "split_on c (x # xs) =
     (if x = c then [] # split_on c xs
      else (case split_on c xs of [] \<Rightarrow> [[x]] | w # ws \<Rightarrow> (x # w) # ws))"

text \<open>
  The characters that \<^verbatim>\<open>str.strip()\<close> removes, among the code points below 256: the
  space, the controls 0x09 to 0x0D and 0x1C to 0x1F, the next-line control 0x85 and the
  no-break space 0xA0.
\<close>

definition is_space :: "char \<Rightarrow> bool" where
  "is_space c = (c \<in> set [CHR '' '', CHR 0x09, CHR 0x0A, CHR 0x0B, CHR 0x0C, CHR 0x0D,
                            CHR 0x1C, CHR 0x1D, CHR 0x1E, CHR 0x1F, CHR 0x85, CHR 0xA0])"

definition strip :: "string \<Rightarrow> string" where
  "strip s = rev (dropWhile is_space (rev (dropWhile is_space s)))"

text \<open>\<^verbatim>\<open>a in b\<close> on strings: \<open>a\<close> occurs in \<open>b\<close> as a contiguous block.\<close>

fun str_contains :: "string \<Rightarrow> string \<Rightarrow> bool" where
  "str_contains a [] = (a = [])"
| "str_contains a (y # ys) = (prefix a (y # ys) \<or> str_contains a ys)"

text \<open>\<^verbatim>\<open>str(i)\<close> for a natural number.\<close>

definition digit_char :: "nat \<Rightarrow> char" where
  "digit_char d = ''0123456789'' ! d"

fun str_of_nat :: "nat \<Rightarrow> string" where
  "str_of_nat n = (if n < 10 then [digit_char n] else str_of_nat (n div 10) @ [digit_char (n mod 10)])"

declare str_of_nat.simps [simp del]

subsection \<open>Paths\<close>

text \<open>
  A \<^verbatim>\<open>pathlib.Path\<close> is its anchor (the root, empty for a relative path) and its
  components. \<open>joinpath p s\<close> is \<^verbatim>\<open>p / s\<close> for a file name \<open>s\<close>.
\<close>

datatype path = Path (anchor: string) (parts: "string list")

definition path_name :: "path \<Rightarrow> string" where
  "path_name p = (case parts p of [] \<Rightarrow> [] | _ \<Rightarrow> last (parts p))"

definition parent :: "path \<Rightarrow> path" where
  "parent p = Path (anchor p) (butlast (parts p))"

definition joinpath :: "path \<Rightarrow> string \<Rightarrow> path" where
  "joinpath p s = Path (anchor p) (parts p @ [s])"

definition path_str :: "path \<Rightarrow> string" where
  "path_str p = (if parts p = [] \<and> anchor p = [] then ''.'' else anchor p @ join ''/'' (parts p))"

text \<open>
  \<^verbatim>\<open>Path.suffix\<close>: with \<open>i\<close> the index of the last dot of the name, the suffix is
  \<^verbatim>\<open>name[i:]\<close> when \<^verbatim>\<open>0 < i < len(name) - 1\<close> and empty otherwise.
\<close>

definition rfind :: "char \<Rightarrow> string \<Rightarrow> nat option" where
  "rfind c s = (if c \<in> set s then Some (length s - 1 - length (takeWhile (\<lambda>x. x \<noteq> c) (rev s))) else None)"

definition path_suffix :: "path \<Rightarrow> string" where
  "path_suffix p =
     (case rfind (CHR ''.'') (path_name p) of
        None \<Rightarrow> []
      | Some i \<Rightarrow> if 0 < i \<and> i + 1 < length (path_name p) then drop i (path_name p) else [])"

subsection \<open>The file system and the world\<close>

text \<open>
  The tensors are of a type \<open>'t\<close> that the program never looks into. An entry of the
  file system is what was written and its modification time; the list has the order in
  which a directory is read.
\<close>

datatype 't content =
    Text string
  | Npy 't
  | SavedModelZip "string option"
  | Assets "string option"
  | Archive
  | Directory
  | Blob

type_synonym 't entry = "'t content \<times> real"

text \<open>
  The values that travel in the keyword arguments of the packaging call: strings, paths,
  numbers, lists and dictionaries. A dictionary is an association list; \<open>dict_update\<close>
  is \<^verbatim>\<open>d.update(e)\<close>.
\<close>

datatype val =
    VStr string
  | VPath path
  | VInt int
  | VReal real
  | VList "val list"
  | VDict "(string \<times> val) list"

type_synonym dict = "(string \<times> val) list"

definition dict_update :: "dict \<Rightarrow> dict \<Rightarrow> dict" where
  "dict_update d e = foldl (\<lambda>acc (k, v). AList.update k v acc) d e"

datatype call = BuildModel string path dict

record 't world =
  files :: "(path \<times> 't entry) list"
  clock :: real
  loaded_weights :: "string option"
  calls :: "call list"

subsection \<open>Computations that may raise\<close>

type_synonym ('t, 'a) comp = "'t world \<Rightarrow> (error + 'a) \<times> 't world"

definition returnE :: "'a \<Rightarrow> ('t, 'a) comp" where
  "returnE x w = (Inr x, w)"

definition raise :: "error \<Rightarrow> ('t, 'a) comp" where
  "raise e w = (Inl e, w)"

definition liftE :: "error + 'a \<Rightarrow> ('t, 'a) comp" where
  "liftE r w = (r, w)"

definition bindE :: "('t, 'a) comp \<Rightarrow> ('a \<Rightarrow> ('t, 'b) comp) \<Rightarrow> ('t, 'b) comp" where
  "bindE m f w = (case m w of (Inl e, w') \<Rightarrow> (Inl e, w') | (Inr x, w') \<Rightarrow> f x w')"

text \<open>
  Writing a file (\<^verbatim>\<open>open(path, "w")\<close>, \<^verbatim>\<open>np.save\<close>, the archive of
  \<^verbatim>\<open>export_TF\<close>, \<^verbatim>\<open>extractall\<close>) replaces the entry of the path or adds one at the
  end, stamped with the clock. Failures of the operating system on a write are outside
  the model.
\<close>

definition write_file :: "path \<Rightarrow> 't content \<Rightarrow> ('t, unit) comp" where
  "write_file p c w = (Inr (), w\<lparr>files := AList.update p (c, clock w) (files w)\<rparr>)"

text \<open>
  \<^verbatim>\<open>outdir.mkdir(exist_ok=True, parents=True)\<close>: nothing happens for a directory that
  exists, \<^verbatim>\<open>FileExistsError\<close> is raised for a path that exists and is no directory.
\<close>

definition mkdir :: "path \<Rightarrow> ('t, unit) comp" where
  "mkdir p w =
     (case map_of (files w) p of
        None \<Rightarrow> (Inr (), w\<lparr>files := AList.update p (Directory, clock w) (files w)\<rparr>)
      | Some (c, t) \<Rightarrow> if c = Directory then (Inr (), w) else (Inl (FileExistsError (path_str p)), w))"

text \<open>
  \<^verbatim>\<open>dir.glob(pat)\<close> for a pattern that is a star and a text: the entries of the
  directory whose name ends with the text, in the order of the directory.
\<close>

definition glob :: "path \<Rightarrow> string \<Rightarrow> (path \<times> 't entry) list \<Rightarrow> (path \<times> 't entry) list" where
  "glob dir pat fs = filter (\<lambda>(p, e). parts p \<noteq> [] \<and> parent p = dir \<and> suffix (tl pat) (path_name p)) fs"

definition st_mtime :: "path \<times> 't entry \<Rightarrow> real" where
  "st_mtime f = snd (snd f)"

subsection \<open>The model object and the code of other packages\<close>

text \<open>
  The fields of \<open>model\<close> are the attributes and methods of the model object that the
  export reads: \<open>is_stardist\<close> is \<^verbatim>\<open>isinstance(model, (StarDist2D, StarDist3D))\<close>,
  \<open>multiclass\<close> is \<^verbatim>\<open>model._is_multiclass()\<close>, \<open>axes_out\<close> is \<^verbatim>\<open>model._axes_out\<close>.
  \<open>load_weights\<close> says whether \<^verbatim>\<open>model.load_weights(name)\<close> raises on a weight file, and \<open>export_TF\<close>
  gives the exception that \<^verbatim>\<open>model.export_TF\<close> raises or the \<^verbatim>\<open>input_names\<close> of the
  model it returns.
\<close>

record model =
  is_stardist :: bool
  logdir :: path
  config_axes :: string
  config_n_dim :: nat
  config_n_rays :: nat
  axes_out :: string
  multiclass :: bool
  thresholds_nms :: real
  thresholds_prob :: real
  axes_div_by :: "string \<Rightarrow> error + int list"
  load_weights :: "string \<Rightarrow> error option"
  export_TF :: "error + string list"

text \<open>
  The fields of \<open>env\<close> are the functions of other packages: whether the optional
  libraries import, the requirements and the metadata of the installed package, the axes
  functions and \<^verbatim>\<open>normalize\<close> of csbdeep, the prediction of the saved model (the output
  array as the list of its slices along the first axis, which is what iterating over it
  gives) and the packaging function \<^verbatim>\<open>build_model\<close>.
\<close>

record 't env =
  libs_available :: bool
  pkg_requires :: "error + string list"
  pkg_metadata :: "error + (string \<Rightarrow> string)"
  axes_check_and_normalize :: "string \<Rightarrow> error + string"
  move_image_axes :: "'t \<Rightarrow> string \<Rightarrow> string \<Rightarrow> error + 't"
  normalize_img :: "'t \<Rightarrow> real \<Rightarrow> real \<Rightarrow> error + 't"
  saved_model_predict :: "string option \<Rightarrow> 't \<Rightarrow> error + 't list"
  build_model :: "string \<Rightarrow> path \<Rightarrow> dict \<Rightarrow> error option"

subsection \<open>The functions of the module\<close>

definition import_error :: string where
  "import_error = ''Required libraries are missing for bioimage.io model export.'' @ [CHR 0x0A] @
     ''Please install StarDist as follows: pip install '' @ [CHR 0x27] @ ''stardist[bioimageio]'' @ [CHR 0x27, CHR 0x0A] @
     ''(You do not need to uninstall StarDist first.)''"

text \<open>\<^verbatim>\<open>_import()\<close>, called with its default \<^verbatim>\<open>error=True\<close> everywhere in the module.\<close>

definition import_libs :: "'t env \<Rightarrow> ('t, unit) comp" where
  "import_libs env = (if libs_available env then returnE () else raise (RuntimeError import_error))"

definition weights_ext :: "string list" where
  "weights_ext = [''*.h5'', ''*.hdf5'']"

definition no_weights_error :: error where
  "no_weights_error =
     ValueError (''Couldn'' @ [CHR 0x27] @ ''t find any network weights ('' @ join '', '' weights_ext @ '') to load.'')"

text \<open>
  \<^verbatim>\<open>_get_weights_name(model, prefer)\<close>: the weight files of the log directory, sorted by
  modification time (\<^verbatim>\<open>sorted\<close> is stable, as \<open>sort_key\<close> is) and reversed; the first
  whose name contains \<open>prefer\<close>, or the first of all.
\<close>

definition weights_files :: "model \<Rightarrow> (path \<times> 't entry) list \<Rightarrow> (path \<times> 't entry) list" where
  "weights_files m fs =
     rev (sort_key st_mtime (concat (map (\<lambda>ext. glob (logdir m) ext fs) weights_ext)))"

definition get_weights_name :: "model \<Rightarrow> string \<Rightarrow> (path \<times> 't entry) list \<Rightarrow> error + string" where
  "get_weights_name m prefer fs =
     (let wf = weights_files m fs in
      if length wf = 0 then Inl no_weights_error
      else
        let weights_preferred = filter (\<lambda>f. str_contains prefer (path_name (fst f))) wf;
            weights_chosen = (if length weights_preferred > 0 then hd weights_preferred else hd wf)
        in Inr (path_name (fst weights_chosen)))"

text \<open>\<^verbatim>\<open>_create_stardist_dependencies(outdir)\<close>.\<close>

definition create_stardist_dependencies :: "'t env \<Rightarrow> path \<Rightarrow> ('t, string) comp" where
  "create_stardist_dependencies env outdir =
     bindE (liftE (pkg_requires env)) (\<lambda>requires.
       let reqs = ''tensorflow'' # requires;
           path = joinpath outdir ''requirements.txt''
       in bindE (write_file path (Text (join [CHR 0x0A] reqs))) (\<lambda>_.
            returnE (''pip:'' @ path_str path)))"

definition doc_text :: string where
  "doc_text = ''# StarDist Model'' @ [CHR 0x0A] @
     ''This is a model for object detection with star-convex shapes.'' @ [CHR 0x0A] @
     ''Please see the [StarDist repository](https://github.com/stardist/stardist) for details.''"

text \<open>\<^verbatim>\<open>_create_stardist_doc(outdir)\<close>.\<close>

definition create_stardist_doc :: "path \<Rightarrow> ('t, path) comp" where
  "create_stardist_doc outdir =
     (let doc_path = joinpath outdir ''README.md''
      in bindE (write_file doc_path (Text doc_text)) (\<lambda>_. returnE doc_path))"

definition doi_2d :: string where
  "doi_2d = ''https://doi.org/10.1007/978-3-030-00934-2_30''"

definition doi_3d :: string where
  "doi_3d = ''https://doi.org/10.1109/WACV45572.2020.9093435''"

text \<open>
  \<^verbatim>\<open>_get_stardist_metadata(outdir)\<close>. The arguments of \<^verbatim>\<open>dict(...)\<close> are evaluated from
  left to right, so the requirements are written before the documentation.
\<close>

definition get_stardist_metadata :: "'t env \<Rightarrow> path \<Rightarrow> ('t, dict) comp" where
  "get_stardist_metadata env outdir =
     bindE (import_libs env) (\<lambda>_.
     bindE (liftE (pkg_metadata env)) (\<lambda>package_data.
     bindE (create_stardist_dependencies env outdir) (\<lambda>dependencies.
     bindE (create_stardist_doc outdir) (\<lambda>documentation.
       returnE
         [(''description'', VStr (package_data ''Summary'')),
          (''authors'', VList (map (\<lambda>n. VDict [(''name'', VStr (strip n))]) (split_on (CHR '','') (package_data ''Author'')))),
          (''git_repo'', VStr (package_data ''Home-Page'')),
          (''license'', VStr (package_data ''License'')),
          (''dependencies'', VStr dependencies),
          (''cite'', VDict [(''Cell Detection with Star-Convex Polygons'', VStr doi_2d),
                      (''Star-convex Polyhedra for 3D Object Detection and Segmentation in Microscopy'', VStr doi_3d)]),
          (''tags'', VList [VStr ''stardist'', VStr ''segmentation'', VStr ''instance segmentation'', VStr ''object detection'', VStr ''tensorflow'']),
          (''covers'', VList [VStr ''https://raw.githubusercontent.com/stardist/stardist/master/images/stardist_logo.jpg'']),
          (''documentation'', VPath documentation)]))))"

text \<open>
  \<^verbatim>\<open>_predict_tf(model_path, test_input)\<close>: the archive is extracted beside itself into
  \<^verbatim>\<open>tf_model\<close> (the extracted tree is one entry, at its root), the saved model is loaded
  from there and applied to the input. Both branches on \<^verbatim>\<open>IS_TF_1\<close> do this. Opening
  the archive raises \<^verbatim>\<open>FileNotFoundError\<close> for a path that does not exist,
  \<^verbatim>\<open>IsADirectoryError\<close> for a directory and \<^verbatim>\<open>BadZipFile\<close> for a file that is no archive;
  an archive that holds no saved model is extracted, and loading it raises.
\<close>

definition predict_tf :: "'t env \<Rightarrow> path \<Rightarrow> 't \<Rightarrow> ('t, 't list) comp" where
  "predict_tf env model_path test_input =
     (let model_assets = joinpath (parent model_path) ''tf_model'' in
      (\<lambda>w. (case map_of (files w) model_path of
               None \<Rightarrow> raise (Raised ''FileNotFoundError'') w
             | Some (c, t) \<Rightarrow>
                 (case c of
                    SavedModelZip z \<Rightarrow>
                      bindE (write_file model_assets (Assets z)) (\<lambda>_.
                        liftE (saved_model_predict env z test_input)) w
                  | Archive \<Rightarrow>
                      bindE (write_file model_assets Blob) (\<lambda>_. raise (Raised ''OSError'')) w
                  | Directory \<Rightarrow> raise (Raised ''IsADirectoryError'') w
                  | _ \<Rightarrow> raise (Raised ''BadZipFile'') w))))"

text \<open>
  Modelled from the spec: \<^verbatim>\<open>model.load_weights\<close> and \<^verbatim>\<open>model.export_TF\<close> are methods of
  the model class, which is not in this module. \<^verbatim>\<open>model.load_weights(name)\<close> reads the
  weight file \<open>name\<close> of the log directory: it raises \<^verbatim>\<open>OSError\<close> when the log directory
  has no entry of this name or when the entry is a directory, and otherwise does what
  the field \<open>load_weights\<close> of the model says. The spec has a zipped weights bundle
  written, and the module passes \<^verbatim>\<open>export_TF\<close> the path of it: a successful call writes
  the bundle of the weights that are loaded at this path.
\<close>

definition load_weights_result :: "model \<Rightarrow> string \<Rightarrow> (path \<times> 't entry) list \<Rightarrow> error option" where
  "load_weights_result m weights_name fs =
     (case map_of fs (joinpath (logdir m) weights_name) of
        None \<Rightarrow> Some (Raised ''OSError'')
      | Some (c, t) \<Rightarrow> if c = Directory then Some (Raised ''OSError'') else load_weights m weights_name)"

definition load_weights_call :: "model \<Rightarrow> string \<Rightarrow> ('t, unit) comp" where
  "load_weights_call m weights_name w =
     (case load_weights_result m weights_name (files w) of
        Some e \<Rightarrow> (Inl e, w)
      | None \<Rightarrow> (Inr (), w\<lparr>loaded_weights := Some weights_name\<rparr>))"

definition export_TF_call :: "model \<Rightarrow> path \<Rightarrow> ('t, string list) comp" where
  "export_TF_call m fname w =
     (case export_TF m of
        Inl e \<Rightarrow> (Inl e, w)
      | Inr input_names \<Rightarrow> bindE (write_file fname (SavedModelZip (loaded_weights w))) (\<lambda>_. returnE input_names) w)"

text \<open>
  The loop over \<^verbatim>\<open>enumerate(test_outputs)\<close> at the end of
  \<^verbatim>\<open>_get_weights_and_model_metadata\<close>, with the counter \<open>i\<close> and the list \<open>out_paths\<close>.
\<close>

fun save_outputs ::
  "'t env \<Rightarrow> path \<Rightarrow> string \<Rightarrow> string \<Rightarrow> nat \<Rightarrow> 't list \<Rightarrow> path list \<Rightarrow> ('t, path list) comp" where
  "save_outputs env outdir output_axes bioimageio_output_axes i [] out_paths = returnE out_paths"
| "save_outputs env outdir output_axes bioimageio_output_axes i (out # outs) out_paths =
     (let p = joinpath outdir (''test_output'' @ str_of_nat i @ ''.npy'') in
      bindE (liftE (move_image_axes env out output_axes bioimageio_output_axes)) (\<lambda>moved.
      bindE (write_file p (Npy moved)) (\<lambda>_.
        save_outputs env outdir output_axes bioimageio_output_axes (Suc i) outs (out_paths @ [p]))))"

text \<open>
  \<^verbatim>\<open>_get_weights_and_model_metadata\<close>. The statements after the \<^verbatim>\<open>raise\<close> of the
  branch \<^verbatim>\<open>keras_hdf5\<close>, and the later branches on this mode, are never reached and are
  left out: past the first branching the mode is \<^verbatim>\<open>tensorflow_saved_model_bundle\<close>.
\<close>

definition get_weights_and_model_metadata ::
  "'t env \<Rightarrow> path \<Rightarrow> model \<Rightarrow> 't \<Rightarrow> string \<Rightarrow> string \<Rightarrow> string \<Rightarrow> real \<Rightarrow> real \<Rightarrow> ('t, dict) comp" where
  "get_weights_and_model_metadata env outdir m test_input input_axes mode prefer_weights
       min_percentile max_percentile =
     bindE (\<lambda>w. liftE (get_weights_name m prefer_weights (files w)) w) (\<lambda>weights_name.
     if mode = ''keras_hdf5'' then
       raise (NotImplementedError ''Export to keras format is not supported yet'')
     else if mode = ''tensorflow_saved_model_bundle'' then
       (let weight_uri = joinpath (logdir m) ''TF_SavedModel.zip'' in
        bindE (load_weights_call m weights_name) (\<lambda>_.
        bindE (export_TF_call m weight_uri) (\<lambda>input_names.
        let axes = lower (config_axes m);
            net_axes_in = axes
        in
        bindE (liftE (axes_check_and_normalize env (axes_out m))) (\<lambda>normalized.
        let net_axes_out = lower normalized;
            ndim_tensor = config_n_dim m + 2
        in
        bindE (liftE (axes_div_by m net_axes_in)) (\<lambda>div_by.
        if multiclass m then
          raise (NotImplementedError ''Tensorflow SavedModel not supported for multiclass models yet'')
        else
        let output_names = [''output''];
            output_n_channels = [1 + int (config_n_rays m)];
            output_scale = replicate (ndim_tensor - 1) (VInt 1) @ [VInt 0]
        in
        bindE (import_libs env) (\<lambda>_.
        bindE (liftE (pkg_metadata env)) (\<lambda>package_data.
        let config = [(''stardist'', VDict [(''stardist_version'', VStr (package_data ''Version'')),
                                      (''thresholds'', VDict [(''nms'', VReal (thresholds_nms m)),
                                                         (''prob'', VReal (thresholds_prob m))])])];
            n_inputs = length input_names
        in
        if n_inputs \<noteq> 1 then raise AssertionError
        else
        let csbdeep_input_axes = ''S'' @ lower net_axes_in;
            bioimageio_input_axes = lower (replace_char (CHR ''S'') (CHR ''B'') csbdeep_input_axes);
            input_config =
              [(''input_name'', VList (map VStr input_names)),
               (''input_step'', VList (replicate n_inputs (VList (map VInt (0 # div_by))))),
               (''input_min_shape'', VList (replicate n_inputs (VList (map VInt (1 # div_by))))),
               (''input_axes'', VList (replicate n_inputs (VStr bioimageio_input_axes))),
               (''input_data_range'', VList (replicate n_inputs (VList [VStr ''-inf'', VStr ''inf'']))),
               (''preprocessing'', VList (replicate n_inputs (VDict [(''scale_range'',
                    VDict [(''mode'', VStr ''per_sample''),
                       (''axes'', VStr (remove_char (CHR ''c'') (lower net_axes_in))),
                       (''min_percentile'', VReal min_percentile),
                       (''max_percentile'', VReal max_percentile)])])))];
            n_outputs = length output_names
        in
        if length output_n_channels \<noteq> n_outputs then raise AssertionError
        else
        let output_axes = net_axes_out;
            csbdeep_output_axes = ''S'' @ output_axes;
            bioimageio_output_axes = lower (replace_char (CHR ''S'') (CHR ''B'') csbdeep_output_axes);
            output_config =
              [(''output_name'', VList (map VStr output_names)),
               (''output_data_range'', VList (replicate n_outputs (VList [VStr ''-inf'', VStr ''inf'']))),
               (''output_axes'', VList (replicate n_outputs (VStr bioimageio_output_axes))),
               (''output_reference'', VList (replicate n_outputs (VStr (hd input_names)))),
               (''output_scale'', VList (replicate n_outputs (VList output_scale))),
               (''output_offset'', VList (map (\<lambda>n_channel. VList (replicate (ndim_tensor - 1) (VInt 1) @ [VInt n_channel]))
                                        output_n_channels))];
            in_path = joinpath outdir ''test_input.npy''
        in
        bindE (liftE (move_image_axes env test_input (upper input_axes) csbdeep_input_axes)) (\<lambda>moved_input.
        bindE (write_file in_path (Npy moved_input)) (\<lambda>_.
        bindE (liftE (normalize_img env test_input min_percentile max_percentile)) (\<lambda>test_input'.
        bindE (liftE (move_image_axes env test_input' (upper input_axes) csbdeep_input_axes)) (\<lambda>moved_normalized.
        bindE (predict_tf env weight_uri moved_normalized) (\<lambda>test_outputs.
        bindE (save_outputs env outdir output_axes bioimageio_output_axes 0 test_outputs []) (\<lambda>out_paths.
        let data = [(''weight_uri'', VPath weight_uri),
                    (''test_inputs'', VList [VPath in_path]),
                    (''test_outputs'', VList (map VPath out_paths)),
                    (''config'', VDict config)]
        in returnE (dict_update (dict_update data input_config) output_config))))))))))))))
     else
       raise (ValueError (''Unsupported mode: '' @ mode)))"

text \<open>
  The call \<^verbatim>\<open>build_model(name=name, output_path=zip_path, **kwargs)\<close>: Python raises
  \<^verbatim>\<open>TypeError\<close> before the call when \<open>kwargs\<close> repeats one of the two keywords.

  Modelled from the spec: \<^verbatim>\<open>build_model\<close> is the packaging function of bioimageio.core,
  which is not in this module. The spec has it produce the final distributable
  archive: a call that returns has written the archive at \<^verbatim>\<open>output_path\<close>.
\<close>

definition build_model_call :: "'t env \<Rightarrow> string \<Rightarrow> path \<Rightarrow> dict \<Rightarrow> ('t, unit) comp" where
  "build_model_call env nm zip_path kwargs =
     (if ''name'' \<in> fst ` set kwargs \<or> ''output_path'' \<in> fst ` set kwargs then
        raise (TypeError ''got multiple values for keyword argument'')
      else
        (\<lambda>w. let w' = w\<lparr>calls := calls w @ [BuildModel nm zip_path kwargs]\<rparr> in
              (case build_model env nm zip_path kwargs of
                 Some e \<Rightarrow> (Inl e, w')
               | None \<Rightarrow> write_file zip_path Archive w')))"

text \<open>\<^verbatim>\<open>export_bioimageio\<close>.\<close>

definition export_bioimageio ::
  "'t env \<Rightarrow> model \<Rightarrow> path \<Rightarrow> 't \<Rightarrow> string \<Rightarrow> string \<Rightarrow> string \<Rightarrow> string \<Rightarrow> real \<Rightarrow> real \<Rightarrow> dict
     \<Rightarrow> ('t, unit) comp" where
  "export_bioimageio env m outpath test_input input_axes nm mode prefer_weights
       min_percentile max_percentile overwrite_spec_kwargs =
     bindE (import_libs env) (\<lambda>_.
     if \<not> is_stardist m then raise (ValueError ''not a valid model'')
     else if \<not> (0 \<le> min_percentile \<and> min_percentile < max_percentile \<and> max_percentile \<le> 100) then
       raise (ValueError ''invalid percentile values'')
     else
     bindE (if path_suffix outpath = [] then returnE (outpath, joinpath outpath (nm @ ''.zip''))
            else if path_suffix outpath = ''.zip'' then returnE (parent outpath, outpath)
            else raise (ValueError (''outpath has to be a folder or zip file, got '' @ path_str outpath)))
       (\<lambda>(outdir, zip_path).
     bindE (mkdir outdir) (\<lambda>_.
     bindE (get_stardist_metadata env outdir) (\<lambda>kwargs.
     bindE (get_weights_and_model_metadata env outdir m test_input input_axes mode prefer_weights
              min_percentile max_percentile) (\<lambda>model_kwargs.
       build_model_call env nm zip_path
         (dict_update (dict_update kwargs model_kwargs) overwrite_spec_kwargs))))))"

subsection \<open>Example inputs\<close>

text \<open>
  A two-dimensional model with two weight files in its log directory, of which the
  newer is \<^verbatim>\<open>weights_last.h5\<close>, and stand-ins for the functions of other packages, on
  tensors that are natural numbers.
\<close>

definition ex_env :: "nat env" where
  "ex_env = \<lparr>libs_available = True, pkg_requires = Inr [''csbdeep'', ''numpy''],
     pkg_metadata = Inr (\<lambda>k. if k = ''Author'' then ''Uwe Schmidt, Martin Weigert'' else k),
     axes_check_and_normalize = (\<lambda>s. Inr (upper s)),
     move_image_axes = (\<lambda>x fr to. Inr x),
     normalize_img = (\<lambda>x a b. Inr (x + 100)),
     saved_model_predict = (\<lambda>z x. Inr [2 * x, 2 * x + 1]),
     build_model = (\<lambda>n p k. None)\<rparr>"

definition ex_model :: model where
  "ex_model = \<lparr>is_stardist = True, logdir = Path [] [''models'', ''m''], config_axes = ''YXC'',
     config_n_dim = 2, config_n_rays = 32, axes_out = ''YXC'', multiclass = False,
     thresholds_nms = 0.4, thresholds_prob = 0.5, axes_div_by = (\<lambda>a. Inr [16, 16, 1]),
     load_weights = (\<lambda>n. None), export_TF = Inr [''input'']\<rparr>"

definition ex_best :: "path \<times> nat entry" where
  "ex_best = (Path [] [''models'', ''m'', ''weights_best.h5''], (Blob, 5))"

definition ex_last :: "path \<times> nat entry" where
  "ex_last = (Path [] [''models'', ''m'', ''weights_last.h5''], (Blob, 7))"

definition ex_world :: "nat world" where
  "ex_world = \<lparr>files = [ex_best, ex_last], clock = 10, loaded_weights = None, calls = []\<rparr>"

definition ex_empty_world :: "nat world" where
  "ex_empty_world = \<lparr>files = [], clock = 10, loaded_weights = None, calls = []\<rparr>"

text \<open>
  The keyword arguments and the world at the end of the export of the example model to
  the directory \<^verbatim>\<open>out\<close>, with the percentiles 1 and 100.
\<close>

definition ex_kwargs :: dict where
  "ex_kwargs =
     [(''description'', VStr ''Summary''),
      (''authors'', VList [VDict [(''name'', VStr ''Uwe Schmidt'')], VDict [(''name'', VStr ''Martin Weigert'')]]),
      (''git_repo'', VStr ''Home-Page''),
      (''license'', VStr ''License''),
      (''dependencies'', VStr ''pip:out/requirements.txt''),
      (''cite'', VDict [(''Cell Detection with Star-Convex Polygons'', VStr doi_2d),
                  (''Star-convex Polyhedra for 3D Object Detection and Segmentation in Microscopy'', VStr doi_3d)]),
      (''tags'', VList [VStr ''stardist'', VStr ''segmentation'', VStr ''instance segmentation'', VStr ''object detection'', VStr ''tensorflow'']),
      (''covers'', VList [VStr ''https://raw.githubusercontent.com/stardist/stardist/master/images/stardist_logo.jpg'']),
      (''documentation'', VPath (Path [] [''out'', ''README.md''])),
      (''weight_uri'', VPath (Path [] [''models'', ''m'', ''TF_SavedModel.zip''])),
      (''test_inputs'', VList [VPath (Path [] [''out'', ''test_input.npy''])]),
      (''test_outputs'', VList [VPath (Path [] [''out'', ''test_output0.npy'']),
                              VPath (Path [] [''out'', ''test_output1.npy''])]),
      (''config'', VDict [(''stardist'', VDict [(''stardist_version'', VStr ''Version''),
                                            (''thresholds'', VDict [(''nms'', VReal 0.4), (''prob'', VReal 0.5)])])]),
      (''input_name'', VList [VStr ''input'']),
      (''input_step'', VList [VList [VInt 0, VInt 16, VInt 16, VInt 1]]),
      (''input_min_shape'', VList [VList [VInt 1, VInt 16, VInt 16, VInt 1]]),
      (''input_axes'', VList [VStr ''byxc'']),
      (''input_data_range'', VList [VList [VStr ''-inf'', VStr ''inf'']]),
      (''preprocessing'', VList [VDict [(''scale_range'',
           VDict [(''mode'', VStr ''per_sample''), (''axes'', VStr ''yx''),
                  (''min_percentile'', VReal 1), (''max_percentile'', VReal 100)])]]),
      (''output_name'', VList [VStr ''output'']),
      (''output_data_range'', VList [VList [VStr ''-inf'', VStr ''inf'']]),
      (''output_axes'', VList [VStr ''byxc'']),
      (''output_reference'', VList [VStr ''input'']),
      (''output_scale'', VList [VList [VInt 1, VInt 1, VInt 1, VInt 0]]),
      (''output_offset'', VList [VList [VInt 1, VInt 1, VInt 1, VInt 33]])]"

definition ex_final :: "nat world" where
  "ex_final =
     \<lparr>files =
        [ex_best, ex_last,
         (Path [] [''out''], (Directory, 10)),
         (Path [] [''out'', ''requirements.txt''], (Text (''tensorflow'' @ [CHR 0x0A] @ ''csbdeep'' @ [CHR 0x0A] @ ''numpy''), 10)),
         (Path [] [''out'', ''README.md''], (Text doc_text, 10)),
         (Path [] [''models'', ''m'', ''TF_SavedModel.zip''], (SavedModelZip (Some ''weights_best.h5''), 10)),
         (Path [] [''out'', ''test_input.npy''], (Npy 7, 10)),
         (Path [] [''models'', ''m'', ''tf_model''], (Assets (Some ''weights_best.h5''), 10)),
         (Path [] [''out'', ''test_output0.npy''], (Npy 214, 10)),
         (Path [] [''out'', ''test_output1.npy''], (Npy 215, 10)),
         (Path [] [''out'', ''bm.zip''], (Archive, 10))],
      clock = 10, loaded_weights = Some ''weights_best.h5'',
      calls = [BuildModel ''bm'' (Path [] [''out'', ''bm.zip'']) ex_kwargs]\<rparr>"

text \<open>The world after a sequence of writes, and the path of the \<open>i\<close>-th saved output.\<close>

definition write_files :: "(path \<times> 't content) list \<Rightarrow> 't world \<Rightarrow> 't world" where
  "write_files ws w = w\<lparr>files := foldl (\<lambda>fs (p, c). AList.update p (c, clock w) fs) (files w) ws\<rparr>"

definition test_output_path :: "path \<Rightarrow> nat \<Rightarrow> path" where
  "test_output_path outdir i = joinpath outdir (''test_output'' @ str_of_nat i @ ''.npy'')"

text \<open>
  What a computation leaves alone: \<open>quiet\<close> computations make no packaging call and
  write no archive; \<open>careful\<close> ones, when they raise, have made no packaging call but
  one that raised this exception, and have written no archive.
\<close>

definition no_new_archive :: "'t world \<Rightarrow> 't world \<Rightarrow> bool" where
  "no_new_archive w w' = (\<forall>p t. (p, (Archive, t)) \<in> set (files w') \<longrightarrow> (p, (Archive, t)) \<in> set (files w))"

definition quiet :: "('t, 'a) comp \<Rightarrow> bool" where
  "quiet c = (\<forall>w r w'. c w = (r, w') \<longrightarrow> calls w' = calls w \<and> no_new_archive w w')"

definition careful :: "'t env \<Rightarrow> string \<Rightarrow> ('t, 'a) comp \<Rightarrow> bool" where
  "careful env nm c =
     (\<forall>w e w'. c w = (Inl e, w') \<longrightarrow>
        (calls w' = calls w \<or>
         (\<exists>zp kw. calls w' = calls w @ [BuildModel nm zp kw] \<and> build_model env nm zp kw = Some e)) \<and>
        no_new_archive w w')"

section \<open>Properties\<close>

subsection \<open>Strings and sorting\<close>

lemma str_contains_sublist: "str_contains a b = sublist a b"
  by (induction b) (auto simp: sublist_Cons_right)

lemma last_sort_key_max:
  assumes "xs \<noteq> []"
  shows "last (sort_key f xs) \<in> set xs \<and> (\<forall>x\<in>set xs. f x \<le> f (last (sort_key f xs)))"
proof -
  define ys where "ys = sort_key f xs"
  have ne: "ys \<noteq> []" using assms by (metis ys_def set_sort set_empty)
  have srt: "sorted (map f ys)" by (simp add: ys_def)
  have st: "set ys = set xs" by (simp add: ys_def)
  have dec: "ys = butlast ys @ [last ys]" using ne by simp
  have "sorted (map f (butlast ys @ [last ys]))" using srt dec by simp
  then have "\<forall>x\<in>set (butlast ys). f x \<le> f (last ys)"
    by (simp add: sorted_append)
  moreover have "set ys = insert (last ys) (set (butlast ys))"
    using dec by (metis list.simps(15) rotate1.simps(2) set_rotate1)
  ultimately show ?thesis using ne st unfolding ys_def[symmetric] by auto
qed

lemma hd_filter_rev_sort_key:
  assumes "filter Q xs \<noteq> []"
  shows "hd (filter Q (rev (sort_key f xs))) \<in> set xs \<and> Q (hd (filter Q (rev (sort_key f xs))))
         \<and> (\<forall>x\<in>set xs. Q x \<longrightarrow> f x \<le> f (hd (filter Q (rev (sort_key f xs)))))"
proof -
  have eq: "filter Q (rev (sort_key f xs)) = rev (sort_key f (filter Q xs))"
    by (simp add: rev_filter[symmetric] filter_sort)
  have ne: "sort_key f (filter Q xs) \<noteq> []" using assms by (metis set_sort set_empty)
  have hd: "hd (filter Q (rev (sort_key f xs))) = last (sort_key f (filter Q xs))"
    using ne by (simp add: eq hd_rev)
  show ?thesis using last_sort_key_max[OF assms, of f] unfolding hd by auto
qed

subsection \<open>Inversion of the computations\<close>

lemma bindE_returnE: "bindE (returnE x) f w = f x w"
  by (simp add: bindE_def returnE_def)

lemma bindE_raise: "bindE (raise e) f w = (Inl e, w)"
  by (simp add: bindE_def raise_def)

lemma bindE_Inr_iff:
  "bindE m f w = (Inr y, w') \<longleftrightarrow> (\<exists>x w1. m w = (Inr x, w1) \<and> f x w1 = (Inr y, w'))"
  by (auto simp: bindE_def split: prod.splits sum.splits)

lemma bindE_Inl_iff:
  "bindE m f w = (Inl e, w') \<longleftrightarrow>
     (m w = (Inl e, w') \<or> (\<exists>x w1. m w = (Inr x, w1) \<and> f x w1 = (Inl e, w')))"
  by (auto simp: bindE_def split: prod.splits sum.splits)

lemma liftE_iff: "liftE r w = (r', w') \<longleftrightarrow> r = r' \<and> w' = w"
  by (auto simp: liftE_def)

lemma returnE_iff: "returnE x w = (r, w') \<longleftrightarrow> r = Inr x \<and> w' = w"
  by (auto simp: returnE_def)

lemma raise_iff: "raise e w = (r, w') \<longleftrightarrow> r = Inl e \<and> w' = w"
  by (auto simp: raise_def)

lemma write_file_iff:
  "write_file p c w = (r, w') \<longleftrightarrow> r = Inr () \<and> w' = w\<lparr>files := AList.update p (c, clock w) (files w)\<rparr>"
  by (auto simp: write_file_def)

lemmas comp_iffs = bindE_Inr_iff bindE_Inl_iff liftE_iff returnE_iff raise_iff write_file_iff

lemma import_libs_Inr: "import_libs env w = (Inr u, w') \<longleftrightarrow> libs_available env \<and> w' = w"
  by (auto simp: import_libs_def comp_iffs)

lemma get_stardist_metadata_Inr:
  assumes "get_stardist_metadata env outdir w = (Inr kw, w')"
  shows "\<exists>pd reqs. libs_available env \<and> pkg_metadata env = Inr pd \<and> pkg_requires env = Inr reqs \<and>
           w' = w\<lparr>files := AList.update (joinpath outdir ''README.md'') (Text doc_text, clock w)
                    (AList.update (joinpath outdir ''requirements.txt'')
                       (Text (join [CHR 0x0A] (''tensorflow'' # reqs)), clock w) (files w))\<rparr> \<and>
           map_of kw ''dependencies'' = Some (VStr (''pip:'' @ path_str (joinpath outdir ''requirements.txt''))) \<and>
           map_of kw ''documentation'' = Some (VPath (joinpath outdir ''README.md'')) \<and>
           map fst kw = [''description'', ''authors'', ''git_repo'', ''license'', ''dependencies'', ''cite'',
                         ''tags'', ''covers'', ''documentation'']"
  using assms
  by (auto simp: get_stardist_metadata_def create_stardist_dependencies_def create_stardist_doc_def
        Let_def comp_iffs import_libs_Inr)


lemma joinpath_eq_iff: "joinpath p s = joinpath q t \<longleftrightarrow> anchor p = anchor q \<and> parts p = parts q \<and> s = t"
  by (auto simp: joinpath_def)

lemma load_weights_call_iff:
  "load_weights_call m n w = (r, w') \<longleftrightarrow>
     (case load_weights_result m n (files w) of Some e \<Rightarrow> r = Inl e \<and> w' = w
      | None \<Rightarrow> r = Inr () \<and> w' = w\<lparr>loaded_weights := Some n\<rparr>)"
  by (auto simp: load_weights_call_def split: option.splits)

lemma export_TF_call_iff:
  "export_TF_call m p w = (r, w') \<longleftrightarrow>
     (case export_TF m of Inl e \<Rightarrow> r = Inl e \<and> w' = w
      | Inr ns \<Rightarrow> r = Inr ns \<and> w' = w\<lparr>files := AList.update p (SavedModelZip (loaded_weights w), clock w) (files w)\<rparr>)"
  by (auto simp: export_TF_call_def bindE_def write_file_def returnE_def split: sum.splits)

lemma predict_tf_Inr:
  "predict_tf env mp x w = (Inr outs, w') \<longleftrightarrow>
     (\<exists>z t. map_of (files w) mp = Some (SavedModelZip z, t) \<and> saved_model_predict env z x = Inr outs \<and>
        w' = w\<lparr>files := AList.update (joinpath (parent mp) ''tf_model'') (Assets z, clock w) (files w)\<rparr>)"
  by (auto simp: predict_tf_def Let_def comp_iffs split: option.splits content.splits prod.splits)

lemma gwm_Inr:
  assumes "get_weights_and_model_metadata env outdir m ti ia mode pw mn mx w = (Inr data, w')"
  shows "mode = ''tensorflow_saved_model_bundle'' \<and> \<not> multiclass m \<and> libs_available env"
  using assms
  by (auto simp: get_weights_and_model_metadata_def Let_def comp_iffs import_libs_Inr
        load_weights_call_iff export_TF_call_iff predict_tf_Inr split: if_splits)


lemma write_files_Nil: "write_files [] w = w"
  by (simp add: write_files_def)

lemma write_files_append: "write_files (a @ b) w = write_files b (write_files a w)"
  by (simp add: write_files_def)

lemma write_files_Cons:
  "write_files ((p, c) # ws) w = write_files ws (w\<lparr>files := AList.update p (c, clock w) (files w)\<rparr>)"
  by (simp add: write_files_def)

lemma save_outputs_Inr:
  "save_outputs env outdir oa ba i outs acc w = (Inr ps, w') \<Longrightarrow>
     \<exists>moved. map (\<lambda>out. move_image_axes env out oa ba) outs = map Inr moved \<and>
       ps = acc @ map (test_output_path outdir) [i..<i + length outs] \<and>
       w' = write_files (map (\<lambda>(j, x). (test_output_path outdir j, Npy x)) (zip [i..<i + length outs] moved)) w"
proof (induction outs arbitrary: i acc w)
  case Nil
  then show ?case by (simp add: comp_iffs write_files_Nil)
next
  case (Cons out outs)
  from Cons.prems obtain mv where
    mv: "move_image_axes env out oa ba = Inr mv" and
    rest: "save_outputs env outdir oa ba (Suc i) outs (acc @ [test_output_path outdir i])
             (w\<lparr>files := AList.update (test_output_path outdir i) (Npy mv, clock w) (files w)\<rparr>) = (Inr ps, w')"
    by (auto simp: Let_def comp_iffs test_output_path_def)
  from Cons.IH[OF rest] obtain moved where
    m: "map (\<lambda>out. move_image_axes env out oa ba) outs = map Inr moved" and
    p: "ps = (acc @ [test_output_path outdir i]) @ map (test_output_path outdir) [Suc i..<Suc i + length outs]" and
    w: "w' = write_files (map (\<lambda>(j, x). (test_output_path outdir j, Npy x)) (zip [Suc i..<Suc i + length outs] moved))
              (w\<lparr>files := AList.update (test_output_path outdir i) (Npy mv, clock w) (files w)\<rparr>)"
    by blast
  have "i < i + length (out # outs)" by simp
  from upt_conv_Cons[OF this]
  have up: "[i..<i + length (out # outs)] = i # [Suc i..<Suc i + length outs]"
    by simp
  show ?case
    unfolding up
    apply (rule exI[where x = "mv # moved"])
    using mv m p w by (simp add: write_files_Cons del: upt_Suc)
qed


lemma parent_joinpath: "parent (joinpath p s) = p"
  by (simp add: parent_def joinpath_def)

lemma gwm_success:
  assumes "get_weights_and_model_metadata env outdir m ti ia mode pw mn mx w = (Inr data, w')"
  shows "\<exists>wname input_name normalized div_by pd moved_in ti' moved_norm outs moved_outs.
    mode = ''tensorflow_saved_model_bundle'' \<and> \<not> multiclass m \<and> libs_available env \<and>
    get_weights_name m pw (files w) = Inr wname \<and> load_weights_result m wname (files w) = None \<and>
    export_TF m = Inr [input_name] \<and>
    axes_check_and_normalize env (axes_out m) = Inr normalized \<and>
    axes_div_by m (lower (config_axes m)) = Inr div_by \<and> pkg_metadata env = Inr pd \<and>
    move_image_axes env ti (upper ia) (''S'' @ lower (lower (config_axes m))) = Inr moved_in \<and>
    normalize_img env ti mn mx = Inr ti' \<and>
    move_image_axes env ti' (upper ia) (''S'' @ lower (lower (config_axes m))) = Inr moved_norm \<and>
    saved_model_predict env (Some wname) moved_norm = Inr outs \<and>
    map (\<lambda>out. move_image_axes env out (lower normalized)
                  (lower (replace_char (CHR ''S'') (CHR ''B'') (''S'' @ lower normalized)))) outs
      = map Inr moved_outs \<and>
    w' = write_files
           ([(joinpath (logdir m) ''TF_SavedModel.zip'', SavedModelZip (Some wname)),
             (joinpath outdir ''test_input.npy'', Npy moved_in),
             (joinpath (logdir m) ''tf_model'', Assets (Some wname))]
            @ map (\<lambda>(j, x). (test_output_path outdir j, Npy x)) (zip [0..<length outs] moved_outs))
           (w\<lparr>loaded_weights := Some wname\<rparr>) \<and>
    map_of data ''weight_uri'' = Some (VPath (joinpath (logdir m) ''TF_SavedModel.zip'')) \<and>
    map_of data ''test_inputs'' = Some (VList [VPath (joinpath outdir ''test_input.npy'')]) \<and>
    map_of data ''test_outputs'' = Some (VList (map VPath (map (test_output_path outdir) [0..<length outs]))) \<and>
    map_of data ''input_axes'' =
      Some (VList [VStr (lower (replace_char (CHR ''S'') (CHR ''B'') (''S'' @ lower (lower (config_axes m)))))]) \<and>
    map_of data ''output_axes'' =
      Some (VList [VStr (lower (replace_char (CHR ''S'') (CHR ''B'') (''S'' @ lower normalized)))]) \<and>
    map fst data = [''weight_uri'', ''test_inputs'', ''test_outputs'', ''config'', ''input_name'', ''input_step'',
      ''input_min_shape'', ''input_axes'', ''input_data_range'', ''preprocessing'', ''output_name'',
      ''output_data_range'', ''output_axes'', ''output_reference'', ''output_scale'', ''output_offset'']"
  using assms
  apply (clarsimp simp: get_weights_and_model_metadata_def Let_def comp_iffs import_libs_Inr
        load_weights_call_iff export_TF_call_iff predict_tf_Inr parent_joinpath joinpath_eq_iff
        AList.update_conv' path.expand
        split: if_splits option.splits sum.splits)
  apply (drule save_outputs_Inr)
  apply (clarsimp simp: write_files_def dict_update_def length_Suc_conv)
  done

subsection \<open>The choice of the weights\<close>

lemma weights_files_unfold:
  "weights_files m fs = rev (sort_key st_mtime (glob (logdir m) ''*.h5'' fs @ glob (logdir m) ''*.hdf5'' fs))"
  by (simp add: weights_files_def weights_ext_def)

lemma ex_glob_h5: "glob (logdir ex_model) ''*.h5'' (files ex_world) = [ex_best, ex_last]"
  by (simp add: glob_def ex_model_def ex_world_def ex_best_def ex_last_def parent_def path_name_def
      suffix_to_prefix)

lemma ex_glob_hdf5: "glob (logdir ex_model) ''*.hdf5'' (files ex_world) = []"
  by (simp add: glob_def ex_model_def ex_world_def ex_best_def ex_last_def parent_def path_name_def
      suffix_to_prefix)

lemma ex_weights_name_best: "get_weights_name ex_model ''best'' (files ex_world) = Inr ''weights_best.h5''"
  by (simp add: get_weights_name_def weights_files_unfold ex_glob_h5 ex_glob_hdf5 Let_def
      ex_best_def ex_last_def st_mtime_def path_name_def)

text \<open>
  C2. When the log directory of the model holds a weight file (an entry that
  \<^verbatim>\<open>*.h5\<close> or \<^verbatim>\<open>*.hdf5\<close> matches), \<^verbatim>\<open>_get_weights_name(model, prefer)\<close> returns the name
  of a weight file \<open>f\<close>. If the name of some weight file contains \<open>prefer\<close>, the name of
  \<open>f\<close> contains it and no weight file whose name contains it has a later modification
  time than \<open>f\<close>; if none does, no weight file at all has a later modification time.
\<close>

theorem get_weights_name_most_recent:
  assumes "f0 \<in> set (glob (logdir m) ''*.h5'' fs) \<union> set (glob (logdir m) ''*.hdf5'' fs)"
  shows "\<exists>f \<in> set (glob (logdir m) ''*.h5'' fs) \<union> set (glob (logdir m) ''*.hdf5'' fs).
           get_weights_name m prefer fs = Inr (path_name (fst f)) \<and>
           (if \<exists>g \<in> set (glob (logdir m) ''*.h5'' fs) \<union> set (glob (logdir m) ''*.hdf5'' fs).
                 str_contains prefer (path_name (fst g))
            then str_contains prefer (path_name (fst f)) \<and>
                 (\<forall>g \<in> set (glob (logdir m) ''*.h5'' fs) \<union> set (glob (logdir m) ''*.hdf5'' fs).
                    str_contains prefer (path_name (fst g)) \<longrightarrow> st_mtime g \<le> st_mtime f)
            else (\<forall>g \<in> set (glob (logdir m) ''*.h5'' fs) \<union> set (glob (logdir m) ''*.hdf5'' fs).
                    st_mtime g \<le> st_mtime f))"
proof -
  define xs where "xs = glob (logdir m) ''*.h5'' fs @ glob (logdir m) ''*.hdf5'' fs"
  define Q where "Q = (\<lambda>f :: path \<times> 'a entry. str_contains prefer (path_name (fst f)))"
  have W: "set (glob (logdir m) ''*.h5'' fs) \<union> set (glob (logdir m) ''*.hdf5'' fs) = set xs"
    by (simp add: xs_def)
  have wf: "weights_files m fs = rev (sort_key st_mtime xs)"
    by (simp add: weights_files_unfold xs_def)
  have ne: "xs \<noteq> []" using assms W by auto
  have ne': "rev (sort_key st_mtime xs) \<noteq> []" using ne by (metis set_sort set_empty set_rev)
  show ?thesis
  proof (cases "filter Q xs = []")
    case True
    then have nopref: "\<not> (\<exists>g\<in>set xs. Q g)" by (simp add: filter_empty_conv)
    have fe: "filter Q (rev (sort_key st_mtime xs)) = []"
      using nopref by (simp add: filter_empty_conv)
    have res: "get_weights_name m prefer fs = Inr (path_name (fst (hd (rev (sort_key st_mtime xs)))))"
      using ne' fe by (simp add: get_weights_name_def wf Let_def Q_def)
    have "filter (\<lambda>x. True) xs \<noteq> []" using ne by simp
    from hd_filter_rev_sort_key[OF this, of st_mtime]
    have "hd (rev (sort_key st_mtime xs)) \<in> set xs \<and>
          (\<forall>x\<in>set xs. st_mtime x \<le> st_mtime (hd (rev (sort_key st_mtime xs))))" by simp
    then show ?thesis unfolding W using res nopref unfolding Q_def by auto
  next
    case False
    then have pref: "\<exists>g\<in>set xs. Q g" by (simp add: filter_empty_conv)
    have fne: "filter Q (rev (sort_key st_mtime xs)) \<noteq> []"
      using False by (metis filter_sort rev_filter rev_is_Nil_conv set_empty set_sort)
    have res: "get_weights_name m prefer fs = Inr (path_name (fst (hd (filter Q (rev (sort_key st_mtime xs))))))"
      using ne' fne by (simp add: get_weights_name_def wf Let_def Q_def)
    from hd_filter_rev_sort_key[OF False, of st_mtime]
    show ?thesis unfolding W using res pref unfolding Q_def by auto
  qed
qed

theorem get_weights_name_most_recent_witness:
  "ex_best \<in> set (glob (logdir ex_model) ''*.h5'' (files ex_world))
             \<union> set (glob (logdir ex_model) ''*.hdf5'' (files ex_world))
   \<and> (\<exists>f \<in> {ex_best, ex_last}.
         get_weights_name ex_model ''best'' (files ex_world) = Inr (path_name (fst f)) \<and>
         str_contains ''best'' (path_name (fst f)) \<and>
         (\<forall>g \<in> {ex_best, ex_last}. str_contains ''best'' (path_name (fst g)) \<longrightarrow> st_mtime g \<le> st_mtime f))"
proof -
  have h: "ex_best \<in> set (glob (logdir ex_model) ''*.h5'' (files ex_world))
                     \<union> set (glob (logdir ex_model) ''*.hdf5'' (files ex_world))"
    by (simp add: ex_glob_h5 ex_glob_hdf5)
  have p: "str_contains ''best'' (path_name (fst ex_best))"
    by (simp add: ex_best_def path_name_def)
  from get_weights_name_most_recent[OF h, of "''best''"] p
  show ?thesis using h by (simp add: ex_glob_h5 ex_glob_hdf5 split: if_splits)
qed

subsection \<open>Case conversion of axes strings\<close>

lemma lower_char_idem: "lower_char (lower_char c) = lower_char c"
  by (simp add: lower_char_def uppers_def lowers_def)

lemma lower_char_not_S: "lower_char c \<noteq> CHR ''S''"
  by (simp add: lower_char_def uppers_def lowers_def)

lemma lower_idem: "lower (lower s) = lower s"
  by (simp add: lower_def lower_char_idem)

lemma bio_axes: "lower (replace_char (CHR ''S'') (CHR ''B'') (''S'' @ lower s)) = CHR ''b'' # lower s"
  by (simp add: lower_def replace_char_def lower_char_idem lower_char_not_S)
     (simp add: lower_char_def uppers_def lowers_def)

subsection \<open>The steps of the export\<close>

lemma export_no_libs:
  "\<not> libs_available env \<Longrightarrow>
   export_bioimageio env m outpath ti ia nm mode pw mn mx ov w = (Inl (RuntimeError import_error), w)"
  by (simp add: export_bioimageio_def import_libs_def bindE_def returnE_def raise_def)

lemma export_Inr_steps:
  assumes "export_bioimageio env m outpath ti ia nm mode pw mn mx ov w = (Inr u, w')"
  shows "\<exists>outdir zip_path w1 kw w2 data w3.
     libs_available env \<and> is_stardist m \<and> 0 \<le> mn \<and> mn < mx \<and> mx \<le> 100 \<and>
     (path_suffix outpath = [] \<and> outdir = outpath \<and> zip_path = joinpath outpath (nm @ ''.zip'')
      \<or> path_suffix outpath = ''.zip'' \<and> outdir = parent outpath \<and> zip_path = outpath) \<and>
     mkdir outdir w = (Inr (), w1) \<and>
     get_stardist_metadata env outdir w1 = (Inr kw, w2) \<and>
     get_weights_and_model_metadata env outdir m ti ia mode pw mn mx w2 = (Inr data, w3) \<and>
     build_model_call env nm zip_path (dict_update (dict_update kw data) ov) w3 = (Inr u, w')"
  using assms
  by (auto simp: export_bioimageio_def comp_iffs import_libs_Inr split: if_splits)

lemma build_model_call_Inr:
  "build_model_call env nm zp kwargs w = (Inr u, w') \<longleftrightarrow>
     ''name'' \<notin> fst ` set kwargs \<and> ''output_path'' \<notin> fst ` set kwargs \<and>
     build_model env nm zp kwargs = None \<and>
     w' = w\<lparr>calls := calls w @ [BuildModel nm zp kwargs],
            files := AList.update zp (Archive, clock w) (files w)\<rparr>"
  by (auto simp: build_model_call_def Let_def comp_iffs write_file_def split: option.splits)

lemma gwm_no_weights:
  "get_weights_name m pw (files w) = Inl e \<Longrightarrow>
   get_weights_and_model_metadata env outdir m ti ia mode pw mn mx w = (Inl e, w)"
  by (simp add: get_weights_and_model_metadata_def bindE_def liftE_def raise_def)

lemma gwm_keras:
  "get_weights_name m pw (files w) = Inr wname \<Longrightarrow>
   get_weights_and_model_metadata env outdir m ti ia ''keras_hdf5'' pw mn mx w
     = (Inl (NotImplementedError ''Export to keras format is not supported yet''), w)"
  by (simp add: get_weights_and_model_metadata_def bindE_def liftE_def raise_def)

lemma gwm_other_mode:
  "get_weights_name m pw (files w) = Inr wname \<Longrightarrow> mode \<noteq> ''keras_hdf5'' \<Longrightarrow>
   mode \<noteq> ''tensorflow_saved_model_bundle'' \<Longrightarrow>
   get_weights_and_model_metadata env outdir m ti ia mode pw mn mx w
     = (Inl (ValueError (''Unsupported mode: '' @ mode)), w)"
  by (simp add: get_weights_and_model_metadata_def bindE_def liftE_def raise_def)

lemma gwm_multiclass:
  "get_weights_name m pw (files w) = Inr wname \<Longrightarrow> load_weights_result m wname (files w) = None \<Longrightarrow>
   export_TF m = Inr input_names \<Longrightarrow> axes_check_and_normalize env (axes_out m) = Inr normalized \<Longrightarrow>
   axes_div_by m (lower (config_axes m)) = Inr div_by \<Longrightarrow> multiclass m \<Longrightarrow>
   fst (get_weights_and_model_metadata env outdir m ti ia ''tensorflow_saved_model_bundle'' pw mn mx w)
     = Inl (NotImplementedError ''Tensorflow SavedModel not supported for multiclass models yet'')"
  by (simp add: get_weights_and_model_metadata_def bindE_def liftE_def raise_def Let_def
       load_weights_call_def export_TF_call_def write_file_def returnE_def)

lemma gwm_multiclass_exact:
  "multiclass m \<Longrightarrow>
   get_weights_and_model_metadata env outdir m ti ia ''tensorflow_saved_model_bundle'' pw mn mx w =
     (case get_weights_name m pw (files w) of
        Inl e \<Rightarrow> (Inl e, w)
      | Inr weights_name \<Rightarrow>
          (case load_weights_result m weights_name (files w) of
             Some e \<Rightarrow> (Inl e, w)
           | None \<Rightarrow>
               (case export_TF m of
                  Inl e \<Rightarrow> (Inl e, w\<lparr>loaded_weights := Some weights_name\<rparr>)
                | Inr input_names \<Rightarrow>
                    (case axes_check_and_normalize env (axes_out m) of
                       Inl e \<Rightarrow> (Inl e, write_files [(joinpath (logdir m) ''TF_SavedModel.zip'',
                                     SavedModelZip (Some weights_name))] (w\<lparr>loaded_weights := Some weights_name\<rparr>))
                     | Inr normalized \<Rightarrow>
                         (case axes_div_by m (lower (config_axes m)) of
                            Inl e \<Rightarrow> (Inl e, write_files [(joinpath (logdir m) ''TF_SavedModel.zip'',
                                     SavedModelZip (Some weights_name))] (w\<lparr>loaded_weights := Some weights_name\<rparr>))
                          | Inr div_by \<Rightarrow>
                              (Inl (NotImplementedError ''Tensorflow SavedModel not supported for multiclass models yet''),
                               write_files [(joinpath (logdir m) ''TF_SavedModel.zip'',
                                     SavedModelZip (Some weights_name))] (w\<lparr>loaded_weights := Some weights_name\<rparr>)))))))"
  by (simp add: get_weights_and_model_metadata_def bindE_def liftE_def raise_def Let_def
       load_weights_call_def export_TF_call_def write_file_def returnE_def write_files_def
       split: sum.splits option.splits)

lemma export_run:
  assumes "libs_available env" "is_stardist m" "0 \<le> mn" "mn < mx" "mx \<le> 100"
    and "path_suffix outpath = [] \<and> outdir = outpath \<and> zip_path = joinpath outpath (nm @ ''.zip'')
      \<or> path_suffix outpath = ''.zip'' \<and> outdir = parent outpath \<and> zip_path = outpath"
  shows "export_bioimageio env m outpath ti ia nm mode pw mn mx ov w =
     bindE (mkdir outdir) (\<lambda>_.
     bindE (get_stardist_metadata env outdir) (\<lambda>kwargs.
     bindE (get_weights_and_model_metadata env outdir m ti ia mode pw mn mx) (\<lambda>model_kwargs.
       build_model_call env nm zip_path
         (dict_update (dict_update kwargs model_kwargs) ov)))) w"
  using assms
  by (auto simp: export_bioimageio_def import_libs_def bindE_def returnE_def raise_def)

lemma export_bad_suffix:
  "libs_available env \<Longrightarrow> is_stardist m \<Longrightarrow> 0 \<le> mn \<Longrightarrow> mn < mx \<Longrightarrow> mx \<le> 100 \<Longrightarrow>
   path_suffix outpath \<noteq> [] \<Longrightarrow> path_suffix outpath \<noteq> ''.zip'' \<Longrightarrow>
   export_bioimageio env m outpath ti ia nm mode pw mn mx ov w =
     (Inl (ValueError (''outpath has to be a folder or zip file, got '' @ path_str outpath)), w)"
  by (simp add: export_bioimageio_def import_libs_def bindE_def returnE_def raise_def)

subsection \<open>The export of the example model\<close>

lemma ex_export:
  "export_bioimageio ex_env ex_model (Path [] [''out'']) 7 ''YX'' ''bm''
          ''tensorflow_saved_model_bundle'' ''best'' 1 100 [] ex_world = (Inr (), ex_final)"
  by code_simp

subsection \<open>The checks of the arguments\<close>

text \<open>
  C1, as amended. The percentiles that the export accepts are those with
  \<open>0 \<le> min_percentile < max_percentile \<le> 100\<close>: the upper bound 100 is allowed. When the
  optional libraries import and the model is a StarDist model, every call whose
  percentiles violate this raises \<^verbatim>\<open>ValueError("invalid percentile values")\<close> and leaves
  the world as it was: nothing has been written and nothing has been packaged.
\<close>

theorem export_invalid_percentiles:
  "libs_available env \<Longrightarrow> is_stardist m \<Longrightarrow> \<not> (0 \<le> mn \<and> mn < mx \<and> mx \<le> 100) \<Longrightarrow>
   export_bioimageio env m outpath ti ia nm mode pw mn mx ov w = (Inl (ValueError ''invalid percentile values''), w)"
  by (simp add: export_bioimageio_def import_libs_def bindE_def returnE_def raise_def)

theorem export_invalid_percentiles_witness:
  "libs_available ex_env \<and> is_stardist ex_model \<and> \<not> (0 \<le> (50::real) \<and> (50::real) < 20 \<and> (20::real) \<le> 100) \<and>
   export_bioimageio ex_env ex_model (Path [] [''out'']) 7 ''YX'' ''bm'' ''tensorflow_saved_model_bundle''
     ''best'' 50 20 [] ex_world = (Inl (ValueError ''invalid percentile values''), ex_world)"
proof -
  have l: "libs_available ex_env" by (simp add: ex_env_def)
  have s: "is_stardist ex_model" by (simp add: ex_model_def)
  have p: "\<not> (0 \<le> (50::real) \<and> (50::real) < 20 \<and> (20::real) \<le> 100)" by simp
  from export_invalid_percentiles[OF l s p] l s show ?thesis by simp
qed

text \<open>
  The claim C1 as it is written fails: a maximal percentile of 100 is not in \<open>[0,100)\<close>,
  and the export with the percentiles 1 and 100 raises nothing and succeeds.
\<close>

theorem export_percentile_100_counterexample:
  "\<not> ((100::real) < 100) \<and>
   export_bioimageio ex_env ex_model (Path [] [''out'']) 7 ''YX'' ''bm'' ''tensorflow_saved_model_bundle''
     ''best'' 1 100 [] ex_world = (Inr (), ex_final) \<and>
   fst (export_bioimageio ex_env ex_model (Path [] [''out'']) 7 ''YX'' ''bm'' ''tensorflow_saved_model_bundle''
     ''best'' 1 100 [] ex_world) \<noteq> Inl (ValueError ''invalid percentile values'')"
  by (simp add: ex_export)

text \<open>
  C7, as amended. When the optional libraries import, every call whose model is not an
  instance of \<^verbatim>\<open>StarDist2D\<close> or \<^verbatim>\<open>StarDist3D\<close> raises \<^verbatim>\<open>ValueError("not a valid model")\<close>
  and leaves the world as it was.
\<close>

theorem export_invalid_model:
  "libs_available env \<Longrightarrow> \<not> is_stardist m \<Longrightarrow>
   export_bioimageio env m outpath ti ia nm mode pw mn mx ov w = (Inl (ValueError ''not a valid model''), w)"
  by (simp add: export_bioimageio_def import_libs_def bindE_def returnE_def raise_def)

theorem export_invalid_model_witness:
  "libs_available ex_env \<and> \<not> is_stardist (ex_model\<lparr>is_stardist := False\<rparr>) \<and>
   export_bioimageio ex_env (ex_model\<lparr>is_stardist := False\<rparr>) (Path [] [''out'']) 7 ''YX'' ''bm''
     ''tensorflow_saved_model_bundle'' ''best'' 1 99.8 [] ex_world = (Inl (ValueError ''not a valid model''), ex_world)"
proof -
  have l: "libs_available ex_env" by (simp add: ex_env_def)
  have s: "\<not> is_stardist (ex_model\<lparr>is_stardist := False\<rparr>)" by simp
  from export_invalid_model[OF l s] l s show ?thesis by simp
qed

text \<open>
  The claim C7 as it is written fails where the optional libraries are missing: the import
  comes first, and the call raises \<^verbatim>\<open>RuntimeError\<close> for a model that is no StarDist model.
\<close>

theorem export_invalid_model_counterexample:
  "\<not> is_stardist (ex_model\<lparr>is_stardist := False\<rparr>) \<and>
   export_bioimageio (ex_env\<lparr>libs_available := False\<rparr>) (ex_model\<lparr>is_stardist := False\<rparr>)
     (Path [] [''out'']) 7 ''YX'' ''bm'' ''tensorflow_saved_model_bundle'' ''best'' 1 99.8 [] ex_world
     = (Inl (RuntimeError import_error), ex_world) \<and>
   RuntimeError import_error \<noteq> ValueError ''not a valid model''"
  by (simp add: export_no_libs)

subsection \<open>The modes of the export\<close>

lemma ex_empty_no_weights:
  "get_weights_name ex_model pw (files ex_empty_world) = Inl no_weights_error"
  by (simp add: get_weights_name_def weights_files_unfold glob_def ex_empty_world_def)

text \<open>
  C4, as amended. \<^verbatim>\<open>_get_weights_and_model_metadata\<close> raises an exception unless the
  mode is \<^verbatim>\<open>tensorflow_saved_model_bundle\<close> and the model is not multiclass, and the
  exception is that of the first step that raises, in the order of the code. The lookup
  of the weights comes first: when it raises, its exception is the result in every mode
  and nothing is changed. When it returns, the mode \<^verbatim>\<open>keras_hdf5\<close> raises
  \<^verbatim>\<open>NotImplementedError\<close> and a mode other than the two raises
  \<^verbatim>\<open>ValueError("Unsupported mode: ...")\<close>, and nothing is changed. For a multiclass model
  in the mode \<^verbatim>\<open>tensorflow_saved_model_bundle\<close> the exception is that of the lookup, else
  that of \<^verbatim>\<open>load_weights\<close>, else that of \<^verbatim>\<open>export_TF\<close> (the weights are loaded by
  then), else that of the normalisation of the output axes, else that of
  \<^verbatim>\<open>_axes_div_by\<close>, else \<^verbatim>\<open>NotImplementedError\<close>; in the last three cases the weights
  are loaded and the bundle \<^verbatim>\<open>TF_SavedModel.zip\<close> is written in the log directory.
\<close>

theorem get_weights_and_model_metadata_raises:
  "(mode \<noteq> ''tensorflow_saved_model_bundle'' \<or> multiclass m \<longrightarrow>
      (\<exists>e. fst (get_weights_and_model_metadata env outdir m ti ia mode pw mn mx w) = Inl e)) \<and>
   (\<forall>e. get_weights_name m pw (files w) = Inl e \<longrightarrow>
      get_weights_and_model_metadata env outdir m ti ia mode pw mn mx w = (Inl e, w)) \<and>
   (\<forall>weights_name. get_weights_name m pw (files w) = Inr weights_name \<and> mode = ''keras_hdf5'' \<longrightarrow>
      get_weights_and_model_metadata env outdir m ti ia mode pw mn mx w =
        (Inl (NotImplementedError ''Export to keras format is not supported yet''), w)) \<and>
   (\<forall>weights_name. get_weights_name m pw (files w) = Inr weights_name \<and>
        mode \<noteq> ''keras_hdf5'' \<and> mode \<noteq> ''tensorflow_saved_model_bundle'' \<longrightarrow>
      get_weights_and_model_metadata env outdir m ti ia mode pw mn mx w =
        (Inl (ValueError (''Unsupported mode: '' @ mode)), w)) \<and>
   (mode = ''tensorflow_saved_model_bundle'' \<and> multiclass m \<longrightarrow>
      get_weights_and_model_metadata env outdir m ti ia mode pw mn mx w =
        (case get_weights_name m pw (files w) of
           Inl e \<Rightarrow> (Inl e, w)
         | Inr weights_name \<Rightarrow>
             (case load_weights_result m weights_name (files w) of
                Some e \<Rightarrow> (Inl e, w)
              | None \<Rightarrow>
                  (case export_TF m of
                     Inl e \<Rightarrow> (Inl e, w\<lparr>loaded_weights := Some weights_name\<rparr>)
                   | Inr input_names \<Rightarrow>
                       (case axes_check_and_normalize env (axes_out m) of
                          Inl e \<Rightarrow> (Inl e, write_files [(joinpath (logdir m) ''TF_SavedModel.zip'',
                                        SavedModelZip (Some weights_name))] (w\<lparr>loaded_weights := Some weights_name\<rparr>))
                        | Inr normalized \<Rightarrow>
                            (case axes_div_by m (lower (config_axes m)) of
                               Inl e \<Rightarrow> (Inl e, write_files [(joinpath (logdir m) ''TF_SavedModel.zip'',
                                        SavedModelZip (Some weights_name))] (w\<lparr>loaded_weights := Some weights_name\<rparr>))
                             | Inr div_by \<Rightarrow>
                                 (Inl (NotImplementedError ''Tensorflow SavedModel not supported for multiclass models yet''),
                                  write_files [(joinpath (logdir m) ''TF_SavedModel.zip'',
                                        SavedModelZip (Some weights_name))] (w\<lparr>loaded_weights := Some weights_name\<rparr>))))))))"
proof (intro conjI impI allI)
  assume a: "mode \<noteq> ''tensorflow_saved_model_bundle'' \<or> multiclass m"
  show "\<exists>e. fst (get_weights_and_model_metadata env outdir m ti ia mode pw mn mx w) = Inl e"
  proof (cases "get_weights_and_model_metadata env outdir m ti ia mode pw mn mx w")
    case (Pair r w')
    show ?thesis
    proof (cases r)
      case (Inl e)
      with Pair show ?thesis by simp
    next
      case (Inr data)
      with Pair gwm_Inr[of env outdir m ti ia mode pw mn mx w data w'] a show ?thesis by simp
    qed
  qed
next
  fix e
  assume "get_weights_name m pw (files w) = Inl e"
  then show "get_weights_and_model_metadata env outdir m ti ia mode pw mn mx w = (Inl e, w)"
    by (rule gwm_no_weights)
next
  fix weights_name
  assume "get_weights_name m pw (files w) = Inr weights_name \<and> mode = ''keras_hdf5''"
  then show "get_weights_and_model_metadata env outdir m ti ia mode pw mn mx w =
        (Inl (NotImplementedError ''Export to keras format is not supported yet''), w)"
    by (simp add: gwm_keras)
next
  fix weights_name
  assume "get_weights_name m pw (files w) = Inr weights_name \<and>
        mode \<noteq> ''keras_hdf5'' \<and> mode \<noteq> ''tensorflow_saved_model_bundle''"
  then show "get_weights_and_model_metadata env outdir m ti ia mode pw mn mx w =
        (Inl (ValueError (''Unsupported mode: '' @ mode)), w)"
    by (simp add: gwm_other_mode)
next
  assume "mode = ''tensorflow_saved_model_bundle'' \<and> multiclass m"
  then show "get_weights_and_model_metadata env outdir m ti ia mode pw mn mx w =
        (case get_weights_name m pw (files w) of
           Inl e \<Rightarrow> (Inl e, w)
         | Inr weights_name \<Rightarrow>
             (case load_weights_result m weights_name (files w) of
                Some e \<Rightarrow> (Inl e, w)
              | None \<Rightarrow>
                  (case export_TF m of
                     Inl e \<Rightarrow> (Inl e, w\<lparr>loaded_weights := Some weights_name\<rparr>)
                   | Inr input_names \<Rightarrow>
                       (case axes_check_and_normalize env (axes_out m) of
                          Inl e \<Rightarrow> (Inl e, write_files [(joinpath (logdir m) ''TF_SavedModel.zip'',
                                        SavedModelZip (Some weights_name))] (w\<lparr>loaded_weights := Some weights_name\<rparr>))
                        | Inr normalized \<Rightarrow>
                            (case axes_div_by m (lower (config_axes m)) of
                               Inl e \<Rightarrow> (Inl e, write_files [(joinpath (logdir m) ''TF_SavedModel.zip'',
                                        SavedModelZip (Some weights_name))] (w\<lparr>loaded_weights := Some weights_name\<rparr>))
                             | Inr div_by \<Rightarrow>
                                 (Inl (NotImplementedError ''Tensorflow SavedModel not supported for multiclass models yet''),
                                  write_files [(joinpath (logdir m) ''TF_SavedModel.zip'',
                                        SavedModelZip (Some weights_name))] (w\<lparr>loaded_weights := Some weights_name\<rparr>)))))))"
    using gwm_multiclass_exact[of m env outdir ti ia pw mn mx w] by simp
qed

theorem get_weights_and_model_metadata_raises_witness:
  "get_weights_and_model_metadata ex_env (Path [] [''out'']) ex_model 7 ''YX'' ''keras_hdf5'' ''best'' 1 99.8 ex_world =
      (Inl (NotImplementedError ''Export to keras format is not supported yet''), ex_world) \<and>
   get_weights_and_model_metadata ex_env (Path [] [''out'']) ex_model 7 ''YX'' ''onnx'' ''best'' 1 99.8 ex_world =
      (Inl (ValueError ''Unsupported mode: onnx''), ex_world) \<and>
   get_weights_and_model_metadata ex_env (Path [] [''out'']) ex_model 7 ''YX'' ''tensorflow_saved_model_bundle''
      ''best'' 1 99.8 ex_empty_world = (Inl no_weights_error, ex_empty_world) \<and>
   fst (get_weights_and_model_metadata ex_env (Path [] [''out'']) (ex_model\<lparr>multiclass := True\<rparr>) 7 ''YX''
           ''tensorflow_saved_model_bundle'' ''best'' 1 99.8 ex_world) =
      Inl (NotImplementedError ''Tensorflow SavedModel not supported for multiclass models yet'') \<and>
   fst (get_weights_and_model_metadata ex_env (Path [] [''out''])
           (ex_model\<lparr>multiclass := True, load_weights := (\<lambda>n. Some (Raised ''OSError''))\<rparr>) 7 ''YX''
           ''tensorflow_saved_model_bundle'' ''best'' 1 99.8 ex_world) = Inl (Raised ''OSError'')"
proof -
  have n: "get_weights_name ex_model ''best'' (files ex_world) = Inr ''weights_best.h5''"
    by (rule ex_weights_name_best)
  have n': "get_weights_name (ex_model\<lparr>multiclass := True\<rparr>) ''best'' (files ex_world) = Inr ''weights_best.h5''"
    using n by (simp add: get_weights_name_def weights_files_def)
  have n'': "get_weights_name (ex_model\<lparr>multiclass := True, load_weights := (\<lambda>n. Some (Raised ''OSError''))\<rparr>)
               ''best'' (files ex_world) = Inr ''weights_best.h5''"
    using n by (simp add: get_weights_name_def weights_files_def)
  have e: "get_weights_name ex_model ''best'' (files ex_empty_world) = Inl no_weights_error"
    by (rule ex_empty_no_weights)
  have r: "load_weights_result (ex_model\<lparr>multiclass := True\<rparr>) ''weights_best.h5'' (files ex_world) = None"
    by code_simp
  have r': "load_weights_result (ex_model\<lparr>multiclass := True, load_weights := (\<lambda>n. Some (Raised ''OSError''))\<rparr>)
              ''weights_best.h5'' (files ex_world) = Some (Raised ''OSError'')"
    by code_simp
  from get_weights_and_model_metadata_raises[where mode = "''keras_hdf5''" and m = ex_model and pw = "''best''"
         and w = ex_world and env = ex_env and outdir = "Path [] [''out'']" and ti = 7 and ia = "''YX''"
         and mn = 1 and mx = "99.8"] n
  have k: "get_weights_and_model_metadata ex_env (Path [] [''out'']) ex_model 7 ''YX'' ''keras_hdf5'' ''best'' 1 99.8 ex_world =
      (Inl (NotImplementedError ''Export to keras format is not supported yet''), ex_world)"
    by simp
  from get_weights_and_model_metadata_raises[where mode = "''onnx''" and m = ex_model and pw = "''best''"
         and w = ex_world and env = ex_env and outdir = "Path [] [''out'']" and ti = 7 and ia = "''YX''"
         and mn = 1 and mx = "99.8"] n
  have o: "get_weights_and_model_metadata ex_env (Path [] [''out'']) ex_model 7 ''YX'' ''onnx'' ''best'' 1 99.8 ex_world =
      (Inl (ValueError ''Unsupported mode: onnx''), ex_world)"
    by simp
  from get_weights_and_model_metadata_raises[where mode = "''tensorflow_saved_model_bundle''" and m = ex_model
         and pw = "''best''" and w = ex_empty_world and env = ex_env and outdir = "Path [] [''out'']" and ti = 7
         and ia = "''YX''" and mn = 1 and mx = "99.8"] e
  have l: "get_weights_and_model_metadata ex_env (Path [] [''out'']) ex_model 7 ''YX'' ''tensorflow_saved_model_bundle''
      ''best'' 1 99.8 ex_empty_world = (Inl no_weights_error, ex_empty_world)"
    by simp
  from get_weights_and_model_metadata_raises[where mode = "''tensorflow_saved_model_bundle''"
         and m = "ex_model\<lparr>multiclass := True\<rparr>" and pw = "''best''"
         and w = ex_world and env = ex_env and outdir = "Path [] [''out'']" and ti = 7 and ia = "''YX''"
         and mn = 1 and mx = "99.8"] n' r
  have mc: "fst (get_weights_and_model_metadata ex_env (Path [] [''out'']) (ex_model\<lparr>multiclass := True\<rparr>) 7 ''YX''
           ''tensorflow_saved_model_bundle'' ''best'' 1 99.8 ex_world) =
      Inl (NotImplementedError ''Tensorflow SavedModel not supported for multiclass models yet'')"
    by (simp add: ex_model_def ex_env_def)
  from get_weights_and_model_metadata_raises[where mode = "''tensorflow_saved_model_bundle''"
         and m = "ex_model\<lparr>multiclass := True, load_weights := (\<lambda>n. Some (Raised ''OSError''))\<rparr>" and pw = "''best''"
         and w = ex_world and env = ex_env and outdir = "Path [] [''out'']" and ti = 7 and ia = "''YX''"
         and mn = 1 and mx = "99.8"] n'' r'
  have lw: "fst (get_weights_and_model_metadata ex_env (Path [] [''out''])
           (ex_model\<lparr>multiclass := True, load_weights := (\<lambda>n. Some (Raised ''OSError''))\<rparr>) 7 ''YX''
           ''tensorflow_saved_model_bundle'' ''best'' 1 99.8 ex_world) = Inl (Raised ''OSError'')"
    by simp
  show ?thesis using k o l mc lw by simp
qed

text \<open>
  The claim C4 as it is written fails for a log directory without weight files: in the
  mode \<^verbatim>\<open>keras_hdf5\<close> the exception is the \<^verbatim>\<open>ValueError\<close> of the lookup of the weights,
  not \<^verbatim>\<open>NotImplementedError\<close>.
\<close>

theorem keras_mode_without_weights_counterexample:
  "get_weights_and_model_metadata ex_env (Path [] [''out'']) ex_model 7 ''YX'' ''keras_hdf5'' ''best'' 1 99.8
     ex_empty_world = (Inl no_weights_error, ex_empty_world) \<and>
   no_weights_error = ValueError ''Couldn't find any network weights (*.h5, *.hdf5) to load.'' \<and>
   (\<forall>msg. no_weights_error \<noteq> NotImplementedError msg)"
  by (simp add: gwm_no_weights ex_empty_no_weights) (simp add: no_weights_error_def weights_ext_def)

subsection \<open>No packaging after a failure\<close>

lemma set_update_subset: "set (AList.update k v al) \<subseteq> insert (k, v) (set al)"
  by (induction al) auto

lemma no_new_archive_refl: "no_new_archive w w"
  by (simp add: no_new_archive_def)

lemma no_new_archive_trans: "no_new_archive a b \<Longrightarrow> no_new_archive b c \<Longrightarrow> no_new_archive a c"
  by (simp add: no_new_archive_def)

lemma quiet_returnE: "quiet (returnE x)"
  by (simp add: quiet_def returnE_def no_new_archive_refl)

lemma quiet_raise: "quiet (raise e)"
  by (simp add: quiet_def raise_def no_new_archive_refl)

lemma quiet_liftE: "quiet (liftE r)"
  by (simp add: quiet_def liftE_def no_new_archive_refl)

lemma quiet_read: "quiet (\<lambda>w. liftE (g w) w)"
  by (simp add: quiet_def liftE_def no_new_archive_refl)

lemma quiet_bindE: "quiet c \<Longrightarrow> (\<And>x. quiet (f x)) \<Longrightarrow> quiet (bindE c f)"
  unfolding quiet_def bindE_def
  by (auto split: prod.splits sum.splits intro: no_new_archive_trans) (metis no_new_archive_trans)+

lemma quiet_write_file: "c \<noteq> Archive \<Longrightarrow> quiet (write_file p c)"
  using set_update_subset by (fastforce simp: quiet_def write_file_def no_new_archive_def)

lemma quiet_mkdir: "quiet (mkdir p)"
  using set_update_subset
  by (fastforce simp: quiet_def mkdir_def no_new_archive_def split: option.splits if_splits)

lemma quiet_if: "quiet a \<Longrightarrow> quiet b \<Longrightarrow> quiet (if c then a else b)"
  by simp

lemma quiet_import_libs: "quiet (import_libs env)"
  by (simp add: import_libs_def quiet_returnE quiet_raise)

lemmas quiet_intros = quiet_bindE quiet_returnE quiet_raise quiet_liftE quiet_read quiet_write_file
  quiet_mkdir quiet_if quiet_import_libs

lemma quiet_get_stardist_metadata: "quiet (get_stardist_metadata env outdir)"
  unfolding get_stardist_metadata_def create_stardist_dependencies_def create_stardist_doc_def Let_def
  by (intro quiet_intros) simp_all

lemma quiet_load_weights_call: "quiet (load_weights_call m n)"
  by (auto simp: quiet_def load_weights_call_def no_new_archive_def split: option.splits)

lemma quiet_export_TF_call: "quiet (export_TF_call m p)"
  using set_update_subset
  by (fastforce simp: quiet_def export_TF_call_def bindE_def write_file_def returnE_def
        no_new_archive_def split: sum.splits)

lemma quiet_predict_tf: "quiet (predict_tf env mp x)"
  unfolding quiet_def
proof (intro allI impI)
  fix w :: "'a world" and r w'
  assume h: "predict_tf env mp x w = (r, w')"
  have q1: "\<And>z. quiet (bindE (write_file (joinpath (parent mp) ''tf_model'') (Assets z))
                      (\<lambda>_. liftE (saved_model_predict env z x)))"
    by (rule quiet_bindE, rule quiet_write_file, simp, rule quiet_liftE)
  have q2: "quiet (bindE (write_file (joinpath (parent mp) ''tf_model'') Blob)
                      (\<lambda>_. raise (Raised ''OSError'')) :: ('a, 'a list) comp)"
    by (rule quiet_bindE, rule quiet_write_file, simp, rule quiet_raise)
  have q3: "\<And>e. quiet (raise e :: ('a, 'a list) comp)"
    by (rule quiet_raise)
  from h consider
      (zip) z where "bindE (write_file (joinpath (parent mp) ''tf_model'') (Assets z))
                      (\<lambda>_. liftE (saved_model_predict env z x)) w = (r, w')"
    | (arch) "bindE (write_file (joinpath (parent mp) ''tf_model'') Blob)
                      (\<lambda>_. raise (Raised ''OSError'')) w = (r, w')"
    | (err) e where "raise e w = (r, w')"
    by (auto simp: predict_tf_def Let_def split: option.splits content.splits prod.splits)
  then show "calls w' = calls w \<and> no_new_archive w w'"
  proof cases
    case zip
    with q1[of z] show ?thesis unfolding quiet_def by metis
  next
    case arch
    with q2 show ?thesis unfolding quiet_def by metis
  next
    case err
    with q3[of e] show ?thesis unfolding quiet_def by metis
  qed
qed

lemma quiet_save_outputs: "quiet (save_outputs env outdir oa ba i outs acc)"
proof (induction outs arbitrary: i acc)
  case Nil
  show ?case by (simp add: quiet_returnE)
next
  case (Cons out outs)
  show ?case
    apply (simp only: save_outputs.simps Let_def)
    apply (rule quiet_bindE[OF quiet_liftE])
    apply (rule quiet_bindE)
     apply (rule quiet_write_file)
     apply simp
    apply (rule Cons.IH)
    done
qed

lemma quiet_gwm: "quiet (get_weights_and_model_metadata env outdir m ti ia mode pw mn mx)"
  unfolding get_weights_and_model_metadata_def Let_def
  apply (rule quiet_bindE[OF quiet_read])
  apply (rule quiet_if, rule quiet_raise)
  apply (rule quiet_if)
   prefer 2 apply (rule quiet_raise)
  apply (rule quiet_bindE[OF quiet_load_weights_call])
  apply (rule quiet_bindE[OF quiet_export_TF_call])
  apply (rule quiet_bindE[OF quiet_liftE])
  apply (rule quiet_bindE[OF quiet_liftE])
  apply (rule quiet_if, rule quiet_raise)
  apply (rule quiet_bindE[OF quiet_import_libs])
  apply (rule quiet_bindE[OF quiet_liftE])
  apply (rule quiet_if, rule quiet_raise)
  apply (rule quiet_if, rule quiet_raise)
  apply (rule quiet_bindE[OF quiet_liftE])
  apply (rule quiet_bindE)
   apply (rule quiet_write_file)
   apply simp
  apply (rule quiet_bindE[OF quiet_liftE])
  apply (rule quiet_bindE[OF quiet_liftE])
  apply (rule quiet_bindE[OF quiet_predict_tf])
  apply (rule quiet_bindE[OF quiet_save_outputs])
  apply (rule quiet_returnE)
  done

lemma careful_quiet: "quiet c \<Longrightarrow> careful env nm c"
  by (simp add: quiet_def careful_def)

lemma careful_bindE:
  assumes q: "quiet c" and f: "\<And>x. careful env nm (f x)"
  shows "careful env nm (bindE c f)"
  unfolding careful_def
proof (intro allI impI)
  fix w e w'
  assume h: "bindE c f w = (Inl e, w')"
  from h[unfolded bindE_Inl_iff] consider
    (a) "c w = (Inl e, w')" | (b) x w1 where "c w = (Inr x, w1)" "f x w1 = (Inl e, w')"
    by blast
  then show "(calls w' = calls w \<or>
         (\<exists>zp kw. calls w' = calls w @ [BuildModel nm zp kw] \<and> build_model env nm zp kw = Some e)) \<and>
        no_new_archive w w'"
  proof cases
    case a
    with q have "calls w' = calls w \<and> no_new_archive w w'" by (simp add: quiet_def)
    then show ?thesis by simp
  next
    case b
    from q b(1) have c1: "calls w1 = calls w" and n1: "no_new_archive w w1"
      by (simp_all add: quiet_def)
    from f[of x] b(2) have r: "(calls w' = calls w1 \<or>
         (\<exists>zp kw. calls w' = calls w1 @ [BuildModel nm zp kw] \<and> build_model env nm zp kw = Some e)) \<and>
        no_new_archive w1 w'"
      unfolding careful_def by blast
    from r n1 have "no_new_archive w w'" using no_new_archive_trans by blast
    with r c1 show ?thesis by simp
  qed
qed

lemma careful_if: "careful env nm a \<Longrightarrow> careful env nm b \<Longrightarrow> careful env nm (if c then a else b)"
  by simp

lemma careful_build_model_call: "careful env nm (build_model_call env nm zp kw)"
  by (auto simp: careful_def build_model_call_def Let_def raise_def write_file_def no_new_archive_def
        split: if_splits option.splits)

lemma careful_export: "careful env nm (export_bioimageio env m outpath ti ia nm mode pw mn mx ov)"
  unfolding export_bioimageio_def
  apply (rule careful_bindE[OF quiet_import_libs])
  apply (rule careful_if)
   apply (rule careful_quiet[OF quiet_raise])
  apply (rule careful_if)
   apply (rule careful_quiet[OF quiet_raise])
  apply (rule careful_bindE)
   apply (intro quiet_if quiet_returnE quiet_raise)
  apply (simp only: split_paired_all prod.case)
  apply (rule careful_bindE[OF quiet_mkdir])
  apply (rule careful_bindE[OF quiet_get_stardist_metadata])
  apply (rule careful_bindE[OF quiet_gwm])
  apply (rule careful_build_model_call)
  done

lemma quiet_calls: "quiet c \<Longrightarrow> c w = (r, w') \<Longrightarrow> calls w' = calls w"
  by (simp add: quiet_def)

lemma ex_mkdir_out: "fst (mkdir (Path [] [''out'']) ex_world) = Inr ()"
  by code_simp

lemma ex_metadata_out:
  "(case fst (get_stardist_metadata ex_env (Path [] [''out'']) (snd (mkdir (Path [] [''out'']) ex_world))) of
      Inl e \<Rightarrow> False | Inr kwargs \<Rightarrow> True)"
  by code_simp

lemma ex_gwm_keras:
  "fst (get_weights_and_model_metadata ex_env (Path [] [''out'']) ex_model 7 ''YX'' ''keras_hdf5'' ''best'' 1 99.8
         (snd (get_stardist_metadata ex_env (Path [] [''out'']) (snd (mkdir (Path [] [''out'']) ex_world)))))
     = Inl (NotImplementedError ''Export to keras format is not supported yet'')"
  by code_simp

text \<open>
  C8. A step of \<^verbatim>\<open>export_bioimageio\<close> that raises ends the export with this exception,
  with the world as the step left it, and the steps after it do not run: the import of
  the libraries, the check of the model, the check of the percentiles, the check of the
  suffix, the creation of the output directory, \<^verbatim>\<open>_get_stardist_metadata\<close>,
  \<^verbatim>\<open>_get_weights_and_model_metadata\<close> and the packaging call, in this order. The
  packaging function \<^verbatim>\<open>build_model\<close> is not called when a step before it raises; when
  the packaging call raises, it is either the \<^verbatim>\<open>TypeError\<close> of a repeated keyword, with
  no call, or the exception of the one call of \<^verbatim>\<open>build_model\<close>. So whenever the export
  raises, the log of packaging calls is unchanged or has this one failed call at its end,
  and no archive has been written.
\<close>

theorem export_aborts_at_first_failure:
  "(\<not> libs_available env \<longrightarrow>
      export_bioimageio env m outpath ti ia nm mode pw mn mx ov w = (Inl (RuntimeError import_error), w)) \<and>
   (libs_available env \<and> \<not> is_stardist m \<longrightarrow>
      export_bioimageio env m outpath ti ia nm mode pw mn mx ov w = (Inl (ValueError ''not a valid model''), w)) \<and>
   (libs_available env \<and> is_stardist m \<and> \<not> (0 \<le> mn \<and> mn < mx \<and> mx \<le> 100) \<longrightarrow>
      export_bioimageio env m outpath ti ia nm mode pw mn mx ov w =
        (Inl (ValueError ''invalid percentile values''), w)) \<and>
   (libs_available env \<and> is_stardist m \<and> 0 \<le> mn \<and> mn < mx \<and> mx \<le> 100 \<longrightarrow>
      (path_suffix outpath \<noteq> [] \<and> path_suffix outpath \<noteq> ''.zip'' \<longrightarrow>
         export_bioimageio env m outpath ti ia nm mode pw mn mx ov w =
           (Inl (ValueError (''outpath has to be a folder or zip file, got '' @ path_str outpath)), w)) \<and>
      (\<forall>outdir zip_path.
         (path_suffix outpath = [] \<and> outdir = outpath \<and> zip_path = joinpath outpath (nm @ ''.zip'')
          \<or> path_suffix outpath = ''.zip'' \<and> outdir = parent outpath \<and> zip_path = outpath) \<longrightarrow>
         (\<forall>e w1. mkdir outdir w = (Inl e, w1) \<longrightarrow>
            export_bioimageio env m outpath ti ia nm mode pw mn mx ov w = (Inl e, w1) \<and> calls w1 = calls w) \<and>
         (\<forall>w1 e w2. mkdir outdir w = (Inr (), w1) \<and> get_stardist_metadata env outdir w1 = (Inl e, w2) \<longrightarrow>
            export_bioimageio env m outpath ti ia nm mode pw mn mx ov w = (Inl e, w2) \<and> calls w2 = calls w) \<and>
         (\<forall>w1 kwargs w2 e w3.
            mkdir outdir w = (Inr (), w1) \<and> get_stardist_metadata env outdir w1 = (Inr kwargs, w2) \<and>
            get_weights_and_model_metadata env outdir m ti ia mode pw mn mx w2 = (Inl e, w3) \<longrightarrow>
            export_bioimageio env m outpath ti ia nm mode pw mn mx ov w = (Inl e, w3) \<and> calls w3 = calls w) \<and>
         (\<forall>w1 kwargs w2 model_kwargs w3 e w4.
            mkdir outdir w = (Inr (), w1) \<and> get_stardist_metadata env outdir w1 = (Inr kwargs, w2) \<and>
            get_weights_and_model_metadata env outdir m ti ia mode pw mn mx w2 = (Inr model_kwargs, w3) \<and>
            build_model_call env nm zip_path (dict_update (dict_update kwargs model_kwargs) ov) w3 = (Inl e, w4) \<longrightarrow>
            export_bioimageio env m outpath ti ia nm mode pw mn mx ov w = (Inl e, w4) \<and>
            (calls w4 = calls w \<or>
             calls w4 = calls w @ [BuildModel nm zip_path (dict_update (dict_update kwargs model_kwargs) ov)] \<and>
             build_model env nm zip_path (dict_update (dict_update kwargs model_kwargs) ov) = Some e)))) \<and>
   (\<forall>e w'. export_bioimageio env m outpath ti ia nm mode pw mn mx ov w = (Inl e, w') \<longrightarrow>
      (calls w' = calls w \<or>
       (\<exists>zip_path kwargs. calls w' = calls w @ [BuildModel nm zip_path kwargs] \<and>
                           build_model env nm zip_path kwargs = Some e)) \<and>
      (\<forall>p t. (p, (Archive, t)) \<in> set (files w') \<longrightarrow> (p, (Archive, t)) \<in> set (files w)))"
proof (intro conjI impI allI)
  assume "\<not> libs_available env"
  then show "export_bioimageio env m outpath ti ia nm mode pw mn mx ov w = (Inl (RuntimeError import_error), w)"
    by (rule export_no_libs)
next
  assume "libs_available env \<and> \<not> is_stardist m"
  then show "export_bioimageio env m outpath ti ia nm mode pw mn mx ov w = (Inl (ValueError ''not a valid model''), w)"
    by (simp add: export_bioimageio_def import_libs_def bindE_def returnE_def raise_def)
next
  assume "libs_available env \<and> is_stardist m \<and> \<not> (0 \<le> mn \<and> mn < mx \<and> mx \<le> 100)"
  then show "export_bioimageio env m outpath ti ia nm mode pw mn mx ov w =
        (Inl (ValueError ''invalid percentile values''), w)"
    by (simp add: export_bioimageio_def import_libs_def bindE_def returnE_def raise_def)
next
  assume "libs_available env \<and> is_stardist m \<and> 0 \<le> mn \<and> mn < mx \<and> mx \<le> 100"
    and "path_suffix outpath \<noteq> [] \<and> path_suffix outpath \<noteq> ''.zip''"
  then show "export_bioimageio env m outpath ti ia nm mode pw mn mx ov w =
           (Inl (ValueError (''outpath has to be a folder or zip file, got '' @ path_str outpath)), w)"
    by (simp add: export_bad_suffix)
next
  fix outdir zip_path e w1
  assume g: "libs_available env \<and> is_stardist m \<and> 0 \<le> mn \<and> mn < mx \<and> mx \<le> 100"
    and r: "path_suffix outpath = [] \<and> outdir = outpath \<and> zip_path = joinpath outpath (nm @ ''.zip'')
          \<or> path_suffix outpath = ''.zip'' \<and> outdir = parent outpath \<and> zip_path = outpath"
    and s: "mkdir outdir w = (Inl e, w1)"
  from g r have run: "export_bioimageio env m outpath ti ia nm mode pw mn mx ov w =
     bindE (mkdir outdir) (\<lambda>_.
     bindE (get_stardist_metadata env outdir) (\<lambda>kwargs.
     bindE (get_weights_and_model_metadata env outdir m ti ia mode pw mn mx) (\<lambda>model_kwargs.
       build_model_call env nm zip_path
         (dict_update (dict_update kwargs model_kwargs) ov)))) w"
    by (intro export_run) simp_all
  show "export_bioimageio env m outpath ti ia nm mode pw mn mx ov w = (Inl e, w1)"
    using s by (simp add: run bindE_def)
  show "calls w1 = calls w"
    using quiet_calls[OF quiet_mkdir s] .
next
  fix outdir zip_path w1 e w2
  assume g: "libs_available env \<and> is_stardist m \<and> 0 \<le> mn \<and> mn < mx \<and> mx \<le> 100"
    and r: "path_suffix outpath = [] \<and> outdir = outpath \<and> zip_path = joinpath outpath (nm @ ''.zip'')
          \<or> path_suffix outpath = ''.zip'' \<and> outdir = parent outpath \<and> zip_path = outpath"
    and s: "mkdir outdir w = (Inr (), w1) \<and> get_stardist_metadata env outdir w1 = (Inl e, w2)"
  from g r have run: "export_bioimageio env m outpath ti ia nm mode pw mn mx ov w =
     bindE (mkdir outdir) (\<lambda>_.
     bindE (get_stardist_metadata env outdir) (\<lambda>kwargs.
     bindE (get_weights_and_model_metadata env outdir m ti ia mode pw mn mx) (\<lambda>model_kwargs.
       build_model_call env nm zip_path
         (dict_update (dict_update kwargs model_kwargs) ov)))) w"
    by (intro export_run) simp_all
  show "export_bioimageio env m outpath ti ia nm mode pw mn mx ov w = (Inl e, w2)"
    using s by (simp add: run bindE_def)
  from s have a: "mkdir outdir w = (Inr (), w1)" and b: "get_stardist_metadata env outdir w1 = (Inl e, w2)"
    by simp_all
  show "calls w2 = calls w"
    using quiet_calls[OF quiet_mkdir a] quiet_calls[OF quiet_get_stardist_metadata b] by simp
next
  fix outdir zip_path w1 kwargs w2 e w3
  assume g: "libs_available env \<and> is_stardist m \<and> 0 \<le> mn \<and> mn < mx \<and> mx \<le> 100"
    and r: "path_suffix outpath = [] \<and> outdir = outpath \<and> zip_path = joinpath outpath (nm @ ''.zip'')
          \<or> path_suffix outpath = ''.zip'' \<and> outdir = parent outpath \<and> zip_path = outpath"
    and s: "mkdir outdir w = (Inr (), w1) \<and> get_stardist_metadata env outdir w1 = (Inr kwargs, w2) \<and>
            get_weights_and_model_metadata env outdir m ti ia mode pw mn mx w2 = (Inl e, w3)"
  from g r have run: "export_bioimageio env m outpath ti ia nm mode pw mn mx ov w =
     bindE (mkdir outdir) (\<lambda>_.
     bindE (get_stardist_metadata env outdir) (\<lambda>kwargs.
     bindE (get_weights_and_model_metadata env outdir m ti ia mode pw mn mx) (\<lambda>model_kwargs.
       build_model_call env nm zip_path
         (dict_update (dict_update kwargs model_kwargs) ov)))) w"
    by (intro export_run) simp_all
  show "export_bioimageio env m outpath ti ia nm mode pw mn mx ov w = (Inl e, w3)"
    using s by (simp add: run bindE_def)
  from s have a: "mkdir outdir w = (Inr (), w1)" and b: "get_stardist_metadata env outdir w1 = (Inr kwargs, w2)"
    and c: "get_weights_and_model_metadata env outdir m ti ia mode pw mn mx w2 = (Inl e, w3)"
    by simp_all
  show "calls w3 = calls w"
    using quiet_calls[OF quiet_mkdir a] quiet_calls[OF quiet_get_stardist_metadata b]
      quiet_calls[OF quiet_gwm c] by simp
next
  fix outdir zip_path w1 kwargs w2 model_kwargs w3 e w4
  assume g: "libs_available env \<and> is_stardist m \<and> 0 \<le> mn \<and> mn < mx \<and> mx \<le> 100"
    and r: "path_suffix outpath = [] \<and> outdir = outpath \<and> zip_path = joinpath outpath (nm @ ''.zip'')
          \<or> path_suffix outpath = ''.zip'' \<and> outdir = parent outpath \<and> zip_path = outpath"
    and s: "mkdir outdir w = (Inr (), w1) \<and> get_stardist_metadata env outdir w1 = (Inr kwargs, w2) \<and>
            get_weights_and_model_metadata env outdir m ti ia mode pw mn mx w2 = (Inr model_kwargs, w3) \<and>
            build_model_call env nm zip_path (dict_update (dict_update kwargs model_kwargs) ov) w3 = (Inl e, w4)"
  from g r have run: "export_bioimageio env m outpath ti ia nm mode pw mn mx ov w =
     bindE (mkdir outdir) (\<lambda>_.
     bindE (get_stardist_metadata env outdir) (\<lambda>kwargs.
     bindE (get_weights_and_model_metadata env outdir m ti ia mode pw mn mx) (\<lambda>model_kwargs.
       build_model_call env nm zip_path
         (dict_update (dict_update kwargs model_kwargs) ov)))) w"
    by (intro export_run) simp_all
  show "export_bioimageio env m outpath ti ia nm mode pw mn mx ov w = (Inl e, w4)"
    using s by (simp add: run bindE_def)
  from s have a: "mkdir outdir w = (Inr (), w1)" and b: "get_stardist_metadata env outdir w1 = (Inr kwargs, w2)"
    and c: "get_weights_and_model_metadata env outdir m ti ia mode pw mn mx w2 = (Inr model_kwargs, w3)"
    and d: "build_model_call env nm zip_path (dict_update (dict_update kwargs model_kwargs) ov) w3 = (Inl e, w4)"
    by simp_all
  have c3: "calls w3 = calls w"
    using quiet_calls[OF quiet_mkdir a] quiet_calls[OF quiet_get_stardist_metadata b]
      quiet_calls[OF quiet_gwm c] by simp
  from d have "calls w4 = calls w3 \<or>
             calls w4 = calls w3 @ [BuildModel nm zip_path (dict_update (dict_update kwargs model_kwargs) ov)] \<and>
             build_model env nm zip_path (dict_update (dict_update kwargs model_kwargs) ov) = Some e"
    by (auto simp: build_model_call_def Let_def raise_def write_file_def split: if_splits option.splits)
  then show "calls w4 = calls w \<or>
             calls w4 = calls w @ [BuildModel nm zip_path (dict_update (dict_update kwargs model_kwargs) ov)] \<and>
             build_model env nm zip_path (dict_update (dict_update kwargs model_kwargs) ov) = Some e"
    by (simp add: c3)
next
  fix e w'
  assume h: "export_bioimageio env m outpath ti ia nm mode pw mn mx ov w = (Inl e, w')"
  from careful_export[of env nm m outpath ti ia mode pw mn mx ov] h
  have c: "(calls w' = calls w \<or>
       (\<exists>zip_path kwargs. calls w' = calls w @ [BuildModel nm zip_path kwargs] \<and>
                           build_model env nm zip_path kwargs = Some e)) \<and> no_new_archive w w'"
    unfolding careful_def by blast
  from c show "calls w' = calls w \<or>
       (\<exists>zip_path kwargs. calls w' = calls w @ [BuildModel nm zip_path kwargs] \<and>
                           build_model env nm zip_path kwargs = Some e)"
    by simp
  fix p t
  assume "(p, (Archive, t)) \<in> set (files w')"
  with c show "(p, (Archive, t)) \<in> set (files w)"
    unfolding no_new_archive_def by blast
qed

theorem export_aborts_at_first_failure_witness:
  "\<exists>w1 kwargs w2 w3.
    mkdir (Path [] [''out'']) ex_world = (Inr (), w1) \<and>
    get_stardist_metadata ex_env (Path [] [''out'']) w1 = (Inr kwargs, w2) \<and>
    get_weights_and_model_metadata ex_env (Path [] [''out'']) ex_model 7 ''YX'' ''keras_hdf5'' ''best'' 1 99.8 w2
      = (Inl (NotImplementedError ''Export to keras format is not supported yet''), w3) \<and>
    export_bioimageio ex_env ex_model (Path [] [''out'']) 7 ''YX'' ''bm'' ''keras_hdf5'' ''best'' 1 99.8 [] ex_world
      = (Inl (NotImplementedError ''Export to keras format is not supported yet''), w3) \<and>
    calls w3 = calls ex_world"
proof -
  define w1 where "w1 = snd (mkdir (Path [] [''out'']) ex_world)"
  define w2 where "w2 = snd (get_stardist_metadata ex_env (Path [] [''out'']) w1)"
  define w3 where "w3 = snd (get_weights_and_model_metadata ex_env (Path [] [''out'']) ex_model 7 ''YX''
                               ''keras_hdf5'' ''best'' 1 99.8 w2)"
  have g: "libs_available ex_env \<and> is_stardist ex_model \<and> 0 \<le> (1::real) \<and> (1::real) < 99.8 \<and> (99.8::real) \<le> 100"
    by (simp add: ex_env_def ex_model_def)
  have r: "path_suffix (Path [] [''out'']) = [] \<and> Path [] [''out''] = Path [] [''out''] \<and>
           joinpath (Path [] [''out'']) (''bm'' @ ''.zip'') = joinpath (Path [] [''out'']) (''bm'' @ ''.zip'')
          \<or> path_suffix (Path [] [''out'']) = ''.zip'' \<and> Path [] [''out''] = parent (Path [] [''out'']) \<and>
           joinpath (Path [] [''out'']) (''bm'' @ ''.zip'') = Path [] [''out'']"
    by (simp add: path_suffix_def path_name_def rfind_def)
  have m1: "mkdir (Path [] [''out'']) ex_world = (Inr (), w1)"
    using ex_mkdir_out by (simp add: w1_def prod_eq_iff)
  obtain kwargs where k: "fst (get_stardist_metadata ex_env (Path [] [''out'']) w1) = Inr kwargs"
    using ex_metadata_out by (cases "fst (get_stardist_metadata ex_env (Path [] [''out'']) w1)") (simp_all add: w1_def)
  have m2: "get_stardist_metadata ex_env (Path [] [''out'']) w1 = (Inr kwargs, w2)"
    using k by (simp add: w2_def prod_eq_iff)
  have m3: "get_weights_and_model_metadata ex_env (Path [] [''out'']) ex_model 7 ''YX'' ''keras_hdf5'' ''best'' 1 99.8 w2
      = (Inl (NotImplementedError ''Export to keras format is not supported yet''), w3)"
    using ex_gwm_keras by (simp add: w3_def w2_def w1_def prod_eq_iff)
  note T = export_aborts_at_first_failure[where env = ex_env and m = ex_model and outpath = "Path [] [''out'']"
      and ti = 7 and ia = "''YX''" and nm = "''bm''" and mode = "''keras_hdf5''" and pw = "''best''"
      and mn = 1 and mx = "99.8" and ov = "[]" and w = ex_world]
  note T4 = T[THEN conjunct2, THEN conjunct2, THEN conjunct2, THEN conjunct1, THEN mp, OF g]
  note T5 = T4[THEN conjunct2, THEN spec, THEN spec, THEN mp, OF r]
  note T6 = T5[THEN conjunct2, THEN conjunct2, THEN conjunct1, THEN spec, THEN spec, THEN spec, THEN spec,
      THEN spec, THEN mp, OF conjI[OF m1 conjI[OF m2 m3]]]
  show ?thesis
    using m1 m2 m3 T6
    by (intro exI[of _ w1] exI[of _ kwargs] exI[of _ w2] exI[of _ w3]) simp
qed

subsection \<open>A successful export\<close>

lemma map_of_foldl_update_notin:
  "k \<notin> fst ` set e \<Longrightarrow> map_of (foldl (\<lambda>acc (k, v). AList.update k v acc) d e) k = map_of d k"
  by (induction e arbitrary: d) (auto simp: AList.update_conv')

lemma map_of_dict_update_notin:
  "k \<notin> fst ` set e \<Longrightarrow> map_of (dict_update d e) k = map_of d k"
  by (simp add: dict_update_def map_of_foldl_update_notin)

lemma map_of_dict_update_distinct:
  "distinct (map fst e) \<Longrightarrow> map_of (dict_update d e) k = (case map_of e k of Some v \<Rightarrow> Some v | None \<Rightarrow> map_of d k)"
proof (induction e arbitrary: d)
  case Nil
  then show ?case by (simp add: dict_update_def)
next
  case (Cons a e)
  obtain k' v' where a: "a = (k', v')" by (cases a)
  have d: "distinct (map fst e)" and n: "k' \<notin> fst ` set e" using Cons.prems a by auto
  have step: "dict_update d ((k', v') # e) = dict_update (AList.update k' v' d) e"
    by (simp add: dict_update_def)
  show ?case
  proof (cases "k = k'")
    case True
    then have "map_of e k = None" using n by (simp add: map_of_eq_None_iff)
    then show ?thesis using Cons.IH[OF d, of "AList.update k' v' d"] True
      by (simp add: step a AList.update_conv')
  next
    case False
    then show ?thesis using Cons.IH[OF d, of "AList.update k' v' d"]
      by (simp add: step a AList.update_conv' split: option.splits)
  qed
qed

lemma bio_axes_Cons: "lower (replace_char (CHR ''S'') (CHR ''B'') (CHR ''S'' # lower s)) = CHR ''b'' # lower s"
  using bio_axes[of s] by simp

lemma mkdir_Inr:
  "mkdir p w = (Inr u, w1) \<Longrightarrow> calls w1 = calls w \<and> clock w1 = clock w \<and> loaded_weights w1 = loaded_weights w"
  by (auto simp: mkdir_def split: option.splits if_splits)

lemma export_success:
  assumes "export_bioimageio env m outpath ti ia nm mode pw mn mx ov w = (Inr u, w')"
  shows "\<exists>outdir zip_path w1 reqs wname normalized moved_in ti' moved_norm outs moved_outs kwargs.
     (path_suffix outpath = [] \<and> outdir = outpath \<and> zip_path = joinpath outpath (nm @ ''.zip'')
      \<or> path_suffix outpath = ''.zip'' \<and> outdir = parent outpath \<and> zip_path = outpath) \<and>
     mkdir outdir w = (Inr (), w1) \<and>
     mode = ''tensorflow_saved_model_bundle'' \<and>
     pkg_requires env = Inr reqs \<and>
     get_weights_name m pw (files (write_files
           [(joinpath outdir ''requirements.txt'', Text (join [CHR 0x0A] (''tensorflow'' # reqs))),
            (joinpath outdir ''README.md'', Text doc_text)] w1)) = Inr wname \<and>
     axes_check_and_normalize env (axes_out m) = Inr normalized \<and>
     move_image_axes env ti (upper ia) (''S'' @ lower (config_axes m)) = Inr moved_in \<and>
     normalize_img env ti mn mx = Inr ti' \<and>
     move_image_axes env ti' (upper ia) (''S'' @ lower (config_axes m)) = Inr moved_norm \<and>
     saved_model_predict env (Some wname) moved_norm = Inr outs \<and>
     map (\<lambda>out. move_image_axes env out (lower normalized) (CHR ''b'' # lower normalized)) outs
       = map Inr moved_outs \<and>
     files w' = files (write_files
           ([(joinpath outdir ''requirements.txt'', Text (join [CHR 0x0A] (''tensorflow'' # reqs))),
             (joinpath outdir ''README.md'', Text doc_text),
             (joinpath (logdir m) ''TF_SavedModel.zip'', SavedModelZip (Some wname)),
             (joinpath outdir ''test_input.npy'', Npy moved_in),
             (joinpath (logdir m) ''tf_model'', Assets (Some wname))]
            @ map (\<lambda>(j, x). (test_output_path outdir j, Npy x)) (zip [0..<length outs] moved_outs)
            @ [(zip_path, Archive)]) w1) \<and>
     calls w' = calls w @ [BuildModel nm zip_path kwargs] \<and>
     (\<forall>(k, v) \<in> set
         [(''dependencies'', VStr (''pip:'' @ path_str (joinpath outdir ''requirements.txt''))),
          (''documentation'', VPath (joinpath outdir ''README.md'')),
          (''weight_uri'', VPath (joinpath (logdir m) ''TF_SavedModel.zip'')),
          (''test_inputs'', VList [VPath (joinpath outdir ''test_input.npy'')]),
          (''test_outputs'', VList (map VPath (map (test_output_path outdir) [0..<length outs]))),
          (''input_axes'', VList [VStr (CHR ''b'' # lower (config_axes m))]),
          (''output_axes'', VList [VStr (CHR ''b'' # lower normalized)])].
        k \<notin> fst ` set ov \<longrightarrow> map_of kwargs k = Some v)"
proof -
  from export_Inr_steps[OF assms] obtain outdir zip_path w1 kw w2 data w3 where
    res: "path_suffix outpath = [] \<and> outdir = outpath \<and> zip_path = joinpath outpath (nm @ ''.zip'')
      \<or> path_suffix outpath = ''.zip'' \<and> outdir = parent outpath \<and> zip_path = outpath" and
    mk: "mkdir outdir w = (Inr (), w1)" and
    md: "get_stardist_metadata env outdir w1 = (Inr kw, w2)" and
    gw: "get_weights_and_model_metadata env outdir m ti ia mode pw mn mx w2 = (Inr data, w3)" and
    bm: "build_model_call env nm zip_path (dict_update (dict_update kw data) ov) w3 = (Inr u, w')"
    by (elim exE conjE) auto
  from get_stardist_metadata_Inr[OF md] obtain pd reqs where
    rq: "pkg_requires env = Inr reqs" and
    w2: "w2 = w1\<lparr>files := AList.update (joinpath outdir ''README.md'') (Text doc_text, clock w1)
                    (AList.update (joinpath outdir ''requirements.txt'')
                       (Text (join [CHR 0x0A] (''tensorflow'' # reqs)), clock w1) (files w1))\<rparr>" and
    kdep: "map_of kw ''dependencies'' = Some (VStr (''pip:'' @ path_str (joinpath outdir ''requirements.txt'')))" and
    kdoc: "map_of kw ''documentation'' = Some (VPath (joinpath outdir ''README.md''))" and
    kkeys: "map fst kw = [''description'', ''authors'', ''git_repo'', ''license'', ''dependencies'', ''cite'',
                         ''tags'', ''covers'', ''documentation'']"
    by (elim exE conjE) auto
  from gwm_success[OF gw] obtain wname input_name normalized div_by pd' moved_in ti' moved_norm outs moved_outs where
    mode: "mode = ''tensorflow_saved_model_bundle''" and
    gn: "get_weights_name m pw (files w2) = Inr wname" and
    nz: "axes_check_and_normalize env (axes_out m) = Inr normalized" and
    mi: "move_image_axes env ti (upper ia) (''S'' @ lower (lower (config_axes m))) = Inr moved_in" and
    no: "normalize_img env ti mn mx = Inr ti'" and
    mn: "move_image_axes env ti' (upper ia) (''S'' @ lower (lower (config_axes m))) = Inr moved_norm" and
    pr: "saved_model_predict env (Some wname) moved_norm = Inr outs" and
    mo: "map (\<lambda>out. move_image_axes env out (lower normalized)
                  (lower (replace_char (CHR ''S'') (CHR ''B'') (''S'' @ lower normalized)))) outs
      = map Inr moved_outs" and
    w3: "w3 = write_files
           ([(joinpath (logdir m) ''TF_SavedModel.zip'', SavedModelZip (Some wname)),
             (joinpath outdir ''test_input.npy'', Npy moved_in),
             (joinpath (logdir m) ''tf_model'', Assets (Some wname))]
            @ map (\<lambda>(j, x). (test_output_path outdir j, Npy x)) (zip [0..<length outs] moved_outs))
           (w2\<lparr>loaded_weights := Some wname\<rparr>)" and
    dw: "map_of data ''weight_uri'' = Some (VPath (joinpath (logdir m) ''TF_SavedModel.zip''))" and
    di: "map_of data ''test_inputs'' = Some (VList [VPath (joinpath outdir ''test_input.npy'')])" and
    dt: "map_of data ''test_outputs'' = Some (VList (map VPath (map (test_output_path outdir) [0..<length outs])))" and
    dia: "map_of data ''input_axes'' =
      Some (VList [VStr (lower (replace_char (CHR ''S'') (CHR ''B'') (''S'' @ lower (lower (config_axes m)))))])" and
    doa: "map_of data ''output_axes'' =
      Some (VList [VStr (lower (replace_char (CHR ''S'') (CHR ''B'') (''S'' @ lower normalized)))])" and
    dkeys: "map fst data = [''weight_uri'', ''test_inputs'', ''test_outputs'', ''config'', ''input_name'', ''input_step'',
      ''input_min_shape'', ''input_axes'', ''input_data_range'', ''preprocessing'', ''output_name'',
      ''output_data_range'', ''output_axes'', ''output_reference'', ''output_scale'', ''output_offset'']"
    by (elim exE conjE) auto
  define kwargs where "kwargs = dict_update (dict_update kw data) ov"
  from bm[unfolded build_model_call_Inr] have
    w': "w' = w3\<lparr>calls := calls w3 @ [BuildModel nm zip_path kwargs],
                 files := AList.update zip_path (Archive, clock w3) (files w3)\<rparr>"
    by (simp add: kwargs_def)
  have c1: "calls w1 = calls w" using mkdir_Inr[OF mk] by simp
  have gn': "get_weights_name m pw (files (write_files
           [(joinpath outdir ''requirements.txt'', Text (join [CHR 0x0A] (''tensorflow'' # reqs))),
            (joinpath outdir ''README.md'', Text doc_text)] w1)) = Inr wname"
    using gn by (simp add: w2 write_files_def)
  have files: "files w' = files (write_files
           ([(joinpath outdir ''requirements.txt'', Text (join [CHR 0x0A] (''tensorflow'' # reqs))),
             (joinpath outdir ''README.md'', Text doc_text),
             (joinpath (logdir m) ''TF_SavedModel.zip'', SavedModelZip (Some wname)),
             (joinpath outdir ''test_input.npy'', Npy moved_in),
             (joinpath (logdir m) ''tf_model'', Assets (Some wname))]
            @ map (\<lambda>(j, x). (test_output_path outdir j, Npy x)) (zip [0..<length outs] moved_outs)
            @ [(zip_path, Archive)]) w1)"
    by (simp add: w' w3 w2 write_files_def)
  have calls: "calls w' = calls w @ [BuildModel nm zip_path kwargs]"
    by (simp add: w' w3 w2 write_files_def c1)
  have dd: "distinct (map fst data)" by (simp add: dkeys)
  have look: "\<And>k. k \<notin> fst ` set ov \<Longrightarrow>
     map_of kwargs k = (case map_of data k of Some v \<Rightarrow> Some v | None \<Rightarrow> map_of kw k)"
    by (simp add: kwargs_def map_of_dict_update_notin map_of_dict_update_distinct[OF dd])
  have nd: "map_of data ''dependencies'' = None" "map_of data ''documentation'' = None"
    by (simp_all add: map_of_eq_None_iff image_set dkeys)
  have kw_look: "\<forall>(k, v) \<in> set
         [(''dependencies'', VStr (''pip:'' @ path_str (joinpath outdir ''requirements.txt''))),
          (''documentation'', VPath (joinpath outdir ''README.md'')),
          (''weight_uri'', VPath (joinpath (logdir m) ''TF_SavedModel.zip'')),
          (''test_inputs'', VList [VPath (joinpath outdir ''test_input.npy'')]),
          (''test_outputs'', VList (map VPath (map (test_output_path outdir) [0..<length outs]))),
          (''input_axes'', VList [VStr (CHR ''b'' # lower (config_axes m))]),
          (''output_axes'', VList [VStr (CHR ''b'' # lower normalized)])].
        k \<notin> fst ` set ov \<longrightarrow> map_of kwargs k = Some v"
    using nd kdep kdoc dw di dt dia doa by (simp add: look bio_axes bio_axes_Cons lower_idem)
  have mi': "move_image_axes env ti (upper ia) (''S'' @ lower (config_axes m)) = Inr moved_in"
    using mi by (simp add: lower_idem)
  have mn': "move_image_axes env ti' (upper ia) (''S'' @ lower (config_axes m)) = Inr moved_norm"
    using mn by (simp add: lower_idem)
  have mo': "map (\<lambda>out. move_image_axes env out (lower normalized) (CHR ''b'' # lower normalized)) outs
       = map Inr moved_outs"
    using mo by (simp add: bio_axes bio_axes_Cons)
  show ?thesis
    apply (rule exI[where x = outdir], rule exI[where x = zip_path], rule exI[where x = w1],
           rule exI[where x = reqs], rule exI[where x = wname], rule exI[where x = normalized],
           rule exI[where x = moved_in], rule exI[where x = ti'], rule exI[where x = moved_norm],
           rule exI[where x = outs], rule exI[where x = moved_outs], rule exI[where x = kwargs])
    by (intro conjI) (fact res mk mode rq gn' nz mi' no mn' pr mo' files calls kw_look)+
qed

text \<open>
  C5, as amended. Every successful export is in the mode \<^verbatim>\<open>tensorflow_saved_model_bundle\<close>.
  With \<open>outdir\<close> the output directory (\<open>outpath\<close>, or its parent when \<open>outpath\<close> ends in
  \<^verbatim>\<open>.zip\<close>), it creates \<open>outdir\<close> and then writes, in this order and nothing else:
  \<^verbatim>\<open>requirements.txt\<close> and \<^verbatim>\<open>README.md\<close> in \<open>outdir\<close>; the zipped weights bundle
  \<^verbatim>\<open>TF_SavedModel.zip\<close> in the log directory of the model, not in the output directory;
  \<^verbatim>\<open>test_input.npy\<close> in \<open>outdir\<close>; the extracted bundle \<^verbatim>\<open>tf_model\<close> in the log directory;
  one \<^verbatim>\<open>test_output{i}.npy\<close> in \<open>outdir\<close> per prediction output \<open>i\<close>, numbered from 0; and
  the archive of the packaging call. The packaging call gets the text \<^verbatim>\<open>pip:\<close> followed by
  the path of \<^verbatim>\<open>requirements.txt\<close> as \<^verbatim>\<open>dependencies\<close>, the path of \<^verbatim>\<open>README.md\<close> as
  \<^verbatim>\<open>documentation\<close>, the path of the bundle as \<^verbatim>\<open>weight_uri\<close> and the paths of the test
  tensors as \<^verbatim>\<open>test_inputs\<close> and \<^verbatim>\<open>test_outputs\<close>, each unless
  \<^verbatim>\<open>overwrite_spec_kwargs\<close> has this key.
\<close>

theorem export_writes:
  assumes "export_bioimageio env m outpath ti ia nm mode pw mn mx ov w = (Inr u, w')"
  shows "\<exists>outdir zip_path w1 reqs wname normalized moved_in ti' moved_norm outs moved_outs kwargs.
     (path_suffix outpath = [] \<and> outdir = outpath \<and> zip_path = joinpath outpath (nm @ ''.zip'')
      \<or> path_suffix outpath = ''.zip'' \<and> outdir = parent outpath \<and> zip_path = outpath) \<and>
     mkdir outdir w = (Inr (), w1) \<and>
     mode = ''tensorflow_saved_model_bundle'' \<and>
     pkg_requires env = Inr reqs \<and>
     get_weights_name m pw (files (write_files
           [(joinpath outdir ''requirements.txt'', Text (join [CHR 0x0A] (''tensorflow'' # reqs))),
            (joinpath outdir ''README.md'', Text doc_text)] w1)) = Inr wname \<and>
     axes_check_and_normalize env (axes_out m) = Inr normalized \<and>
     move_image_axes env ti (upper ia) (''S'' @ lower (config_axes m)) = Inr moved_in \<and>
     normalize_img env ti mn mx = Inr ti' \<and>
     move_image_axes env ti' (upper ia) (''S'' @ lower (config_axes m)) = Inr moved_norm \<and>
     saved_model_predict env (Some wname) moved_norm = Inr outs \<and>
     map (\<lambda>out. move_image_axes env out (lower normalized) (CHR ''b'' # lower normalized)) outs
       = map Inr moved_outs \<and>
     files w' = files (write_files
           ([(joinpath outdir ''requirements.txt'', Text (join [CHR 0x0A] (''tensorflow'' # reqs))),
             (joinpath outdir ''README.md'', Text doc_text),
             (joinpath (logdir m) ''TF_SavedModel.zip'', SavedModelZip (Some wname)),
             (joinpath outdir ''test_input.npy'', Npy moved_in),
             (joinpath (logdir m) ''tf_model'', Assets (Some wname))]
            @ map (\<lambda>(j, x). (test_output_path outdir j, Npy x)) (zip [0..<length outs] moved_outs)
            @ [(zip_path, Archive)]) w1) \<and>
     calls w' = calls w @ [BuildModel nm zip_path kwargs] \<and>
     (\<forall>(k, v) \<in> set
         [(''dependencies'', VStr (''pip:'' @ path_str (joinpath outdir ''requirements.txt''))),
          (''documentation'', VPath (joinpath outdir ''README.md'')),
          (''weight_uri'', VPath (joinpath (logdir m) ''TF_SavedModel.zip'')),
          (''test_inputs'', VList [VPath (joinpath outdir ''test_input.npy'')]),
          (''test_outputs'', VList (map VPath (map (test_output_path outdir) [0..<length outs])))].
        k \<notin> fst ` set ov \<longrightarrow> map_of kwargs k = Some v)"
proof -
  from export_success[OF assms] obtain outdir zip_path w1 reqs wname normalized moved_in ti' moved_norm
      outs moved_outs kwargs where
    res: "path_suffix outpath = [] \<and> outdir = outpath \<and> zip_path = joinpath outpath (nm @ ''.zip'')
      \<or> path_suffix outpath = ''.zip'' \<and> outdir = parent outpath \<and> zip_path = outpath" and
    mk: "mkdir outdir w = (Inr (), w1)" and
    mode: "mode = ''tensorflow_saved_model_bundle''" and
    rq: "pkg_requires env = Inr reqs" and
    gn: "get_weights_name m pw (files (write_files
           [(joinpath outdir ''requirements.txt'', Text (join [CHR 0x0A] (''tensorflow'' # reqs))),
            (joinpath outdir ''README.md'', Text doc_text)] w1)) = Inr wname" and
    nz: "axes_check_and_normalize env (axes_out m) = Inr normalized" and
    mi: "move_image_axes env ti (upper ia) (''S'' @ lower (config_axes m)) = Inr moved_in" and
    no: "normalize_img env ti mn mx = Inr ti'" and
    mn: "move_image_axes env ti' (upper ia) (''S'' @ lower (config_axes m)) = Inr moved_norm" and
    pr: "saved_model_predict env (Some wname) moved_norm = Inr outs" and
    mo: "map (\<lambda>out. move_image_axes env out (lower normalized) (CHR ''b'' # lower normalized)) outs
       = map Inr moved_outs" and
    files: "files w' = files (write_files
           ([(joinpath outdir ''requirements.txt'', Text (join [CHR 0x0A] (''tensorflow'' # reqs))),
             (joinpath outdir ''README.md'', Text doc_text),
             (joinpath (logdir m) ''TF_SavedModel.zip'', SavedModelZip (Some wname)),
             (joinpath outdir ''test_input.npy'', Npy moved_in),
             (joinpath (logdir m) ''tf_model'', Assets (Some wname))]
            @ map (\<lambda>(j, x). (test_output_path outdir j, Npy x)) (zip [0..<length outs] moved_outs)
            @ [(zip_path, Archive)]) w1)" and
    calls: "calls w' = calls w @ [BuildModel nm zip_path kwargs]" and
    look: "\<forall>(k, v) \<in> set
         [(''dependencies'', VStr (''pip:'' @ path_str (joinpath outdir ''requirements.txt''))),
          (''documentation'', VPath (joinpath outdir ''README.md'')),
          (''weight_uri'', VPath (joinpath (logdir m) ''TF_SavedModel.zip'')),
          (''test_inputs'', VList [VPath (joinpath outdir ''test_input.npy'')]),
          (''test_outputs'', VList (map VPath (map (test_output_path outdir) [0..<length outs]))),
          (''input_axes'', VList [VStr (CHR ''b'' # lower (config_axes m))]),
          (''output_axes'', VList [VStr (CHR ''b'' # lower normalized)])].
        k \<notin> fst ` set ov \<longrightarrow> map_of kwargs k = Some v"
    by (elim exE conjE) auto
  have look': "\<forall>(k, v) \<in> set
         [(''dependencies'', VStr (''pip:'' @ path_str (joinpath outdir ''requirements.txt''))),
          (''documentation'', VPath (joinpath outdir ''README.md'')),
          (''weight_uri'', VPath (joinpath (logdir m) ''TF_SavedModel.zip'')),
          (''test_inputs'', VList [VPath (joinpath outdir ''test_input.npy'')]),
          (''test_outputs'', VList (map VPath (map (test_output_path outdir) [0..<length outs])))].
        k \<notin> fst ` set ov \<longrightarrow> map_of kwargs k = Some v"
    using look by simp
  show ?thesis
    by (intro exI conjI) (fact res mk mode rq gn nz mi no mn pr mo files calls look')+
qed

theorem export_writes_witness:
  "export_bioimageio ex_env ex_model (Path [] [''out'']) 7 ''YX'' ''bm'' ''tensorflow_saved_model_bundle''
     ''best'' 1 100 [] ex_world = (Inr (), ex_final) \<and>
   (\<exists>outdir zip_path w1 kwargs.
      outdir = Path [] [''out''] \<and> zip_path = Path [] [''out'', ''bm.zip''] \<and>
      mkdir outdir ex_world = (Inr (), w1) \<and>
      calls ex_final = calls ex_world @ [BuildModel ''bm'' zip_path kwargs] \<and>
      map_of kwargs ''weight_uri'' = Some (VPath (Path [] [''models'', ''m'', ''TF_SavedModel.zip''])))"
proof -
  have s: "path_suffix (Path [] [''out'']) = []"
    by (simp add: path_suffix_def path_name_def rfind_def)
  from export_writes[OF ex_export] obtain outdir zip_path w1 kwargs where
    r: "path_suffix (Path [] [''out'']) = [] \<and> outdir = Path [] [''out''] \<and> zip_path = joinpath (Path [] [''out'']) (''bm'' @ ''.zip'')
      \<or> path_suffix (Path [] [''out'']) = ''.zip'' \<and> outdir = parent (Path [] [''out'']) \<and> zip_path = Path [] [''out'']" and
    mk: "mkdir outdir ex_world = (Inr (), w1)" and
    c: "calls ex_final = calls ex_world @ [BuildModel ''bm'' zip_path kwargs]" and
    l: "map_of kwargs ''weight_uri'' = Some (VPath (joinpath (logdir ex_model) ''TF_SavedModel.zip''))"
    by (elim exE conjE) auto
  from r s have o: "outdir = Path [] [''out'']" and z: "zip_path = Path [] [''out'', ''bm.zip'']"
    by (simp_all add: joinpath_def)
  have l': "map_of kwargs ''weight_uri'' = Some (VPath (Path [] [''models'', ''m'', ''TF_SavedModel.zip'']))"
    using l by (simp add: ex_model_def joinpath_def)
  show ?thesis using ex_export o z mk c l' by simp
qed

text \<open>
  The claim C5 as it is written fails: in the export of the example model to the
  directory \<^verbatim>\<open>out\<close> the bundle \<^verbatim>\<open>TF_SavedModel.zip\<close> and the extracted \<^verbatim>\<open>tf_model\<close> are
  written in the log directory \<^verbatim>\<open>models/m\<close> of the model, and no bundle is in \<^verbatim>\<open>out\<close>.
\<close>

theorem export_bundle_in_logdir_counterexample:
  "export_bioimageio ex_env ex_model (Path [] [''out'']) 7 ''YX'' ''bm'' ''tensorflow_saved_model_bundle''
     ''best'' 1 100 [] ex_world = (Inr (), ex_final) \<and>
   map_of (files ex_final) (Path [] [''out'', ''TF_SavedModel.zip'']) = None \<and>
   map_of (files ex_world) (Path [] [''models'', ''m'', ''TF_SavedModel.zip'']) = None \<and>
   map_of (files ex_final) (Path [] [''models'', ''m'', ''TF_SavedModel.zip''])
     = Some (SavedModelZip (Some ''weights_best.h5''), 10) \<and>
   map_of (files ex_world) (Path [] [''models'', ''m'', ''tf_model'']) = None \<and>
   map_of (files ex_final) (Path [] [''models'', ''m'', ''tf_model''])
     = Some (Assets (Some ''weights_best.h5''), 10)"
  by (simp add: ex_export) (simp add: ex_final_def ex_world_def ex_best_def ex_last_def)


subsection \<open>The output directory and the archive\<close>

text \<open>
  C9, as amended. When the optional libraries import, the model is a StarDist model and
  the percentiles pass their check: if \<open>outpath\<close> has no suffix, the export is the creation
  of the directory \<open>outpath\<close>, the two metadata steps on this directory and the packaging
  call with the archive path \<^verbatim>\<open>outpath/{name}.zip\<close>; if the suffix is \<^verbatim>\<open>.zip\<close>, it is the
  same with the parent of \<open>outpath\<close> as the directory and \<open>outpath\<close> itself as the archive
  path; for any other suffix the export raises
  \<^verbatim>\<open>ValueError("outpath has to be a folder or zip file, got ...")\<close> and changes nothing.
\<close>

theorem export_output_directory:
  assumes "libs_available env" and "is_stardist m" and "0 \<le> mn" and "mn < mx" and "mx \<le> 100"
  shows "(path_suffix outpath = [] \<longrightarrow>
            export_bioimageio env m outpath ti ia nm mode pw mn mx ov w =
              bindE (mkdir (outpath)) (\<lambda>_.
          bindE (get_stardist_metadata env (outpath)) (\<lambda>kwargs.
          bindE (get_weights_and_model_metadata env (outpath) m ti ia mode pw mn mx) (\<lambda>model_kwargs.
            build_model_call env nm (joinpath outpath (nm @ ''.zip''))
              (dict_update (dict_update kwargs model_kwargs) ov)))) w) \<and>
         (path_suffix outpath = ''.zip'' \<longrightarrow>
            export_bioimageio env m outpath ti ia nm mode pw mn mx ov w =
              bindE (mkdir (parent outpath)) (\<lambda>_.
          bindE (get_stardist_metadata env (parent outpath)) (\<lambda>kwargs.
          bindE (get_weights_and_model_metadata env (parent outpath) m ti ia mode pw mn mx) (\<lambda>model_kwargs.
            build_model_call env nm (outpath)
              (dict_update (dict_update kwargs model_kwargs) ov)))) w) \<and>
         (path_suffix outpath \<noteq> [] \<and> path_suffix outpath \<noteq> ''.zip'' \<longrightarrow>
            export_bioimageio env m outpath ti ia nm mode pw mn mx ov w =
              (Inl (ValueError (''outpath has to be a folder or zip file, got '' @ path_str outpath)), w))"
  using assms
  by (auto simp: export_run export_bad_suffix)

theorem export_output_directory_witness:
  "libs_available ex_env \<and> is_stardist ex_model \<and> 0 \<le> (1::real) \<and> (1::real) < 99.8 \<and> (99.8::real) \<le> 100 \<and>
   path_suffix (Path [] [''out.txt'']) = ''.txt'' \<and>
   export_bioimageio ex_env ex_model (Path [] [''out.txt'']) 7 ''YX'' ''bm'' ''tensorflow_saved_model_bundle''
     ''best'' 1 99.8 [] ex_world =
     (Inl (ValueError ''outpath has to be a folder or zip file, got out.txt''), ex_world) \<and>
   path_suffix (Path [] [''models'', ''out.zip'']) = ''.zip'' \<and>
   export_bioimageio ex_env ex_model (Path [] [''models'', ''out.zip'']) 7 ''YX'' ''bm'' ''tensorflow_saved_model_bundle''
     ''best'' 1 99.8 [] ex_world =
     bindE (mkdir (Path [] [''models''])) (\<lambda>_.
       bindE (get_stardist_metadata ex_env (Path [] [''models''])) (\<lambda>kwargs.
       bindE (get_weights_and_model_metadata ex_env (Path [] [''models'']) ex_model 7 ''YX''
                ''tensorflow_saved_model_bundle'' ''best'' 1 99.8) (\<lambda>model_kwargs.
         build_model_call ex_env ''bm'' (Path [] [''models'', ''out.zip''])
           (dict_update (dict_update kwargs model_kwargs) [])))) ex_world \<and>
   path_suffix (Path [] [''out'']) = [] \<and>
   export_bioimageio ex_env ex_model (Path [] [''out'']) 7 ''YX'' ''bm'' ''tensorflow_saved_model_bundle''
     ''best'' 1 99.8 [] ex_world =
     bindE (mkdir (Path [] [''out''])) (\<lambda>_.
       bindE (get_stardist_metadata ex_env (Path [] [''out''])) (\<lambda>kwargs.
       bindE (get_weights_and_model_metadata ex_env (Path [] [''out'']) ex_model 7 ''YX''
                ''tensorflow_saved_model_bundle'' ''best'' 1 99.8) (\<lambda>model_kwargs.
         build_model_call ex_env ''bm'' (Path [] [''out'', ''bm.zip''])
           (dict_update (dict_update kwargs model_kwargs) [])))) ex_world"
proof -
  have l: "libs_available ex_env" by (simp add: ex_env_def)
  have s: "is_stardist ex_model" by (simp add: ex_model_def)
  have p: "0 \<le> (1::real)" "(1::real) < 99.8" "(99.8::real) \<le> 100" by simp_all
  have t: "path_suffix (Path [] [''out.txt'']) = ''.txt''"
    by (simp add: path_suffix_def path_name_def rfind_def)
  have z: "path_suffix (Path [] [''models'', ''out.zip'']) = ''.zip''"
    by (simp add: path_suffix_def path_name_def rfind_def)
  have n: "path_suffix (Path [] [''out'']) = []"
    by (simp add: path_suffix_def path_name_def rfind_def)
  note T = export_output_directory[OF l s p, where nm = "''bm''" and ov = "[]" and w = ex_world and ti = 7
      and ia = "''YX''" and mode = "''tensorflow_saved_model_bundle''" and pw = "''best''"]
  from T[where outpath = "Path [] [''out.txt'']"] t
  have a: "export_bioimageio ex_env ex_model (Path [] [''out.txt'']) 7 ''YX'' ''bm'' ''tensorflow_saved_model_bundle''
     ''best'' 1 99.8 [] ex_world =
     (Inl (ValueError ''outpath has to be a folder or zip file, got out.txt''), ex_world)"
    by (simp add: path_str_def)
  from T[where outpath = "Path [] [''models'', ''out.zip'']"] z
  have b: "export_bioimageio ex_env ex_model (Path [] [''models'', ''out.zip'']) 7 ''YX'' ''bm'' ''tensorflow_saved_model_bundle''
     ''best'' 1 99.8 [] ex_world =
     bindE (mkdir (Path [] [''models''])) (\<lambda>_.
       bindE (get_stardist_metadata ex_env (Path [] [''models''])) (\<lambda>kwargs.
       bindE (get_weights_and_model_metadata ex_env (Path [] [''models'']) ex_model 7 ''YX''
                ''tensorflow_saved_model_bundle'' ''best'' 1 99.8) (\<lambda>model_kwargs.
         build_model_call ex_env ''bm'' (Path [] [''models'', ''out.zip''])
           (dict_update (dict_update kwargs model_kwargs) [])))) ex_world"
    by (simp add: parent_def)
  from T[where outpath = "Path [] [''out'']"] n
  have c: "export_bioimageio ex_env ex_model (Path [] [''out'']) 7 ''YX'' ''bm'' ''tensorflow_saved_model_bundle''
     ''best'' 1 99.8 [] ex_world =
     bindE (mkdir (Path [] [''out''])) (\<lambda>_.
       bindE (get_stardist_metadata ex_env (Path [] [''out''])) (\<lambda>kwargs.
       bindE (get_weights_and_model_metadata ex_env (Path [] [''out'']) ex_model 7 ''YX''
                ''tensorflow_saved_model_bundle'' ''best'' 1 99.8) (\<lambda>model_kwargs.
         build_model_call ex_env ''bm'' (Path [] [''out'', ''bm.zip''])
           (dict_update (dict_update kwargs model_kwargs) [])))) ex_world"
    by (simp add: joinpath_def)
  show ?thesis using l s t z n a b c by simp
qed

text \<open>
  The claim C9 as it is written fails where the optional libraries are missing: the import
  comes first, and for the suffix \<^verbatim>\<open>.txt\<close> the export raises \<^verbatim>\<open>RuntimeError\<close>, not
  \<^verbatim>\<open>ValueError\<close>.
\<close>

theorem export_other_suffix_counterexample:
  "path_suffix (Path [] [''out.txt'']) = ''.txt'' \<and>
   export_bioimageio (ex_env\<lparr>libs_available := False\<rparr>) ex_model (Path [] [''out.txt'']) 7 ''YX'' ''bm''
     ''tensorflow_saved_model_bundle'' ''best'' 1 99.8 [] ex_world = (Inl (RuntimeError import_error), ex_world) \<and>
   (\<forall>msg. RuntimeError import_error \<noteq> ValueError msg)"
  by (simp add: export_no_libs) (simp add: path_suffix_def path_name_def rfind_def)

subsection \<open>The axes handed to the builder\<close>

text \<open>
  C6, as amended. In every successful export the keyword arguments of the packaging call
  hold, under \<^verbatim>\<open>input_axes\<close>, the one-element list of \<^verbatim>\<open>'b'\<close> followed by
  \<^verbatim>\<open>model.config.axes\<close> in lower case, unless \<^verbatim>\<open>overwrite_spec_kwargs\<close> has the key
  \<^verbatim>\<open>input_axes\<close>, and under \<^verbatim>\<open>output_axes\<close> the one-element list of \<^verbatim>\<open>'b'\<close> followed
  by the normalized output axes in lower case, unless \<^verbatim>\<open>overwrite_spec_kwargs\<close> has the
  key \<^verbatim>\<open>output_axes\<close>.
\<close>

theorem export_axes:
  assumes "export_bioimageio env m outpath ti ia nm mode pw mn mx ov w = (Inr u, w')"
  shows "\<exists>zip_path kwargs normalized.
     axes_check_and_normalize env (axes_out m) = Inr normalized \<and>
     calls w' = calls w @ [BuildModel nm zip_path kwargs] \<and>
     (''input_axes'' \<notin> fst ` set ov \<longrightarrow>
        map_of kwargs ''input_axes'' = Some (VList [VStr (CHR ''b'' # lower (config_axes m))])) \<and>
     (''output_axes'' \<notin> fst ` set ov \<longrightarrow>
        map_of kwargs ''output_axes'' = Some (VList [VStr (CHR ''b'' # lower normalized)]))"
proof -
  from export_success[OF assms] obtain outdir zip_path w1 reqs wname normalized moved_in ti' moved_norm
      outs moved_outs kwargs where
    res: "path_suffix outpath = [] \<and> outdir = outpath \<and> zip_path = joinpath outpath (nm @ ''.zip'')
      \<or> path_suffix outpath = ''.zip'' \<and> outdir = parent outpath \<and> zip_path = outpath" and
    mk: "mkdir outdir w = (Inr (), w1)" and
    mode: "mode = ''tensorflow_saved_model_bundle''" and
    rq: "pkg_requires env = Inr reqs" and
    gn: "get_weights_name m pw (files (write_files
           [(joinpath outdir ''requirements.txt'', Text (join [CHR 0x0A] (''tensorflow'' # reqs))),
            (joinpath outdir ''README.md'', Text doc_text)] w1)) = Inr wname" and
    nz: "axes_check_and_normalize env (axes_out m) = Inr normalized" and
    mi: "move_image_axes env ti (upper ia) (''S'' @ lower (config_axes m)) = Inr moved_in" and
    no: "normalize_img env ti mn mx = Inr ti'" and
    mn: "move_image_axes env ti' (upper ia) (''S'' @ lower (config_axes m)) = Inr moved_norm" and
    pr: "saved_model_predict env (Some wname) moved_norm = Inr outs" and
    mo: "map (\<lambda>out. move_image_axes env out (lower normalized) (CHR ''b'' # lower normalized)) outs
       = map Inr moved_outs" and
    files: "files w' = files (write_files
           ([(joinpath outdir ''requirements.txt'', Text (join [CHR 0x0A] (''tensorflow'' # reqs))),
             (joinpath outdir ''README.md'', Text doc_text),
             (joinpath (logdir m) ''TF_SavedModel.zip'', SavedModelZip (Some wname)),
             (joinpath outdir ''test_input.npy'', Npy moved_in),
             (joinpath (logdir m) ''tf_model'', Assets (Some wname))]
            @ map (\<lambda>(j, x). (test_output_path outdir j, Npy x)) (zip [0..<length outs] moved_outs)
            @ [(zip_path, Archive)]) w1)" and
    calls: "calls w' = calls w @ [BuildModel nm zip_path kwargs]" and
    look: "\<forall>(k, v) \<in> set
         [(''dependencies'', VStr (''pip:'' @ path_str (joinpath outdir ''requirements.txt''))),
          (''documentation'', VPath (joinpath outdir ''README.md'')),
          (''weight_uri'', VPath (joinpath (logdir m) ''TF_SavedModel.zip'')),
          (''test_inputs'', VList [VPath (joinpath outdir ''test_input.npy'')]),
          (''test_outputs'', VList (map VPath (map (test_output_path outdir) [0..<length outs]))),
          (''input_axes'', VList [VStr (CHR ''b'' # lower (config_axes m))]),
          (''output_axes'', VList [VStr (CHR ''b'' # lower normalized)])].
        k \<notin> fst ` set ov \<longrightarrow> map_of kwargs k = Some v"
    by (elim exE conjE) auto
  have i: "''input_axes'' \<notin> fst ` set ov \<longrightarrow>
        map_of kwargs ''input_axes'' = Some (VList [VStr (CHR ''b'' # lower (config_axes m))])"
    using look by simp
  have o: "''output_axes'' \<notin> fst ` set ov \<longrightarrow>
        map_of kwargs ''output_axes'' = Some (VList [VStr (CHR ''b'' # lower normalized)])"
    using look by simp
  show ?thesis
    by (intro exI conjI) (fact nz calls i o)+
qed

theorem export_axes_witness:
  "export_bioimageio ex_env ex_model (Path [] [''out'']) 7 ''YX'' ''bm'' ''tensorflow_saved_model_bundle''
     ''best'' 1 100 [] ex_world = (Inr (), ex_final) \<and>
   ''input_axes'' \<notin> fst ` set ([] :: dict) \<and> ''output_axes'' \<notin> fst ` set ([] :: dict) \<and>
   config_axes ex_model = ''YXC'' \<and> axes_check_and_normalize ex_env (axes_out ex_model) = Inr ''YXC'' \<and>
   (\<exists>zip_path kwargs.
      calls ex_final = calls ex_world @ [BuildModel ''bm'' zip_path kwargs] \<and>
      map_of kwargs ''input_axes'' = Some (VList [VStr ''byxc'']) \<and>
      map_of kwargs ''output_axes'' = Some (VList [VStr ''byxc'']))"
proof -
  have n: "axes_check_and_normalize ex_env (axes_out ex_model) = Inr ''YXC''"
    by (simp add: ex_env_def ex_model_def upper_def upper_char_def lowers_def uppers_def)
  have c: "config_axes ex_model = ''YXC''" by (simp add: ex_model_def)
  have l: "lower ''YXC'' = ''yxc''" by code_simp
  from export_axes[OF ex_export] obtain zip_path kwargs normalized where
    a: "axes_check_and_normalize ex_env (axes_out ex_model) = Inr normalized" and
    b: "calls ex_final = calls ex_world @ [BuildModel ''bm'' zip_path kwargs]" and
    i: "map_of kwargs ''input_axes'' = Some (VList [VStr (CHR ''b'' # lower (config_axes ex_model))])" and
    o: "map_of kwargs ''output_axes'' = Some (VList [VStr (CHR ''b'' # lower normalized)])"
    by (elim exE conjE) auto
  from a n have nn: "normalized = ''YXC''" by simp
  have i': "map_of kwargs ''input_axes'' = Some (VList [VStr ''byxc''])" using i c l by simp
  have o': "map_of kwargs ''output_axes'' = Some (VList [VStr ''byxc''])" using o nn l by simp
  show ?thesis using ex_export n c b i' o'
    by (intro conjI exI[of _ zip_path] exI[of _ kwargs]) simp_all
qed

text \<open>
  The claim C6 as it is written fails where \<^verbatim>\<open>overwrite_spec_kwargs\<close> has the key
  \<^verbatim>\<open>input_axes\<close>: the export of the example model with
  \<^verbatim>\<open>overwrite_spec_kwargs = {"input_axes": ["bxyc"]}\<close> succeeds and hands \<^verbatim>\<open>["bxyc"]\<close> to
  the builder, where \<^verbatim>\<open>'b'\<close> followed by \<^verbatim>\<open>model.config.axes\<close> in lower case is
  \<^verbatim>\<open>"byxc"\<close>.
\<close>

theorem export_overwritten_axes_counterexample:
  "export_bioimageio ex_env ex_model (Path [] [''out'']) 7 ''YX'' ''bm'' ''tensorflow_saved_model_bundle''
     ''best'' 1 100 [(''input_axes'', VList [VStr ''bxyc''])] ex_world =
     (Inr (), ex_final\<lparr>calls := [BuildModel ''bm'' (Path [] [''out'', ''bm.zip''])
                 (AList.update ''input_axes'' (VList [VStr ''bxyc'']) ex_kwargs)]\<rparr>) \<and>
   map_of (AList.update ''input_axes'' (VList [VStr ''bxyc'']) ex_kwargs) ''input_axes''
     = Some (VList [VStr ''bxyc'']) \<and>
   CHR ''b'' # lower (config_axes ex_model) = ''byxc''"
  by code_simp

subsection \<open>A log directory without weight files\<close>



lemma path_name_last: "parts q \<noteq> [] \<Longrightarrow> path_name q = last (parts q)"
  by (cases "parts q") (simp_all add: path_name_def)







subsection \<open>The files of a sequence of writes\<close>

lemma map_of_write_files:
  "map_of (files (write_files ws w)) p =
     (case map_of (rev ws) p of Some c \<Rightarrow> Some (c, clock w) | None \<Rightarrow> map_of (files w) p)"
  by (induction ws rule: rev_induct) (auto simp: write_files_def AList.update_conv' split: option.splits)

lemma str_of_nat_ne: "str_of_nat n \<noteq> []"
  by (subst str_of_nat.simps) simp

lemma digit_char_inj:
  assumes "a < 10" and "b < 10" and "digit_char a = digit_char b"
  shows "a = b"
proof -
  have a: "a \<in> {0, 1, 2, 3, 4, 5, 6, 7, 8, 9}" using assms(1) by auto
  have b: "b \<in> {0, 1, 2, 3, 4, 5, 6, 7, 8, 9}" using assms(2) by auto
  from a b assms(3) show ?thesis
    by (auto simp: digit_char_def)
qed

lemma str_of_nat_inj: "str_of_nat a = str_of_nat b \<Longrightarrow> a = b"
proof (induction a arbitrary: b rule: str_of_nat.induct)
  case (1 n)
  have sn: "str_of_nat n = (if n < 10 then [digit_char n] else str_of_nat (n div 10) @ [digit_char (n mod 10)])"
    by (rule str_of_nat.simps)
  have sb: "str_of_nat b = (if b < 10 then [digit_char b] else str_of_nat (b div 10) @ [digit_char (b mod 10)])"
    by (rule str_of_nat.simps)
  show ?case
  proof (cases "n < 10")
    case True
    show ?thesis
    proof (cases "b < 10")
      case bt: True
      from True bt "1.prems" sn sb have "digit_char n = digit_char b" by simp
      with True bt show ?thesis by (rule digit_char_inj)
    next
      case False
      with True "1.prems" sn sb have "[digit_char n] = str_of_nat (b div 10) @ [digit_char (b mod 10)]" by simp
      then have "str_of_nat (b div 10) = []" by simp
      with str_of_nat_ne show ?thesis by blast
    qed
  next
    case False
    show ?thesis
    proof (cases "b < 10")
      case True
      with False "1.prems" sn sb have "str_of_nat (n div 10) @ [digit_char (n mod 10)] = [digit_char b]" by simp
      then have "str_of_nat (n div 10) = []" by simp
      with str_of_nat_ne show ?thesis by blast
    next
      case bf: False
      with False "1.prems" sn sb have e: "str_of_nat (n div 10) = str_of_nat (b div 10)"
        and d: "digit_char (n mod 10) = digit_char (b mod 10)" by simp_all
      from "1.IH"[OF False e] have q: "n div 10 = b div 10" .
      have "n mod 10 = b mod 10" using d by (intro digit_char_inj) simp_all
      with q show ?thesis by (metis div_mult_mod_eq)
    qed
  qed
qed

lemma test_output_path_inj: "test_output_path d i = test_output_path d j \<longleftrightarrow> i = j"
  by (auto simp: test_output_path_def joinpath_def dest: str_of_nat_inj)

lemma path_suffix_npy:
  assumes "xs \<noteq> []"
  shows "path_suffix (joinpath d (xs @ ''.npy'')) = ''.npy''"
proof -
  have n: "path_name (joinpath d (xs @ ''.npy'')) = xs @ ''.npy''"
    using path_name_last[of "joinpath d (xs @ ''.npy'')"] by (simp add: joinpath_def)
  have r: "rfind (CHR ''.'') (xs @ ''.npy'') = Some (length xs)"
    by (simp add: rfind_def)
  show ?thesis using assms by (simp add: path_suffix_def n r)
qed

lemma archive_not_npy:
  assumes "path_suffix outpath = [] \<and> outdir = outpath \<and> zip_path = joinpath outpath (nm @ ''.zip'')
      \<or> path_suffix outpath = ''.zip'' \<and> outdir = parent outpath \<and> zip_path = outpath"
    and "xs \<noteq> []"
  shows "zip_path \<noteq> joinpath outdir (xs @ ''.npy'')"
proof
  assume eq: "zip_path = joinpath outdir (xs @ ''.npy'')"
  from assms(1) show False
  proof (elim disjE conjE)
    assume "outdir = outpath" and "zip_path = joinpath outpath (nm @ ''.zip'')"
    with eq have "nm @ ''.zip'' = xs @ ''.npy''" by (simp add: joinpath_eq_iff)
    then have "last (nm @ ''.zip'') = last (xs @ ''.npy'')" by simp
    then show False by simp
  next
    assume s: "path_suffix outpath = ''.zip''" and "zip_path = outpath"
    with eq have "outpath = joinpath outdir (xs @ ''.npy'')" by simp
    then have "path_suffix outpath = ''.npy''" using path_suffix_npy[OF assms(2)] by simp
    with s show False by simp
  qed
qed

lemma map_of_test_outputs:
  assumes "length ys = n" and "i < n"
  shows "map_of (rev (map (\<lambda>(j, x). (test_output_path d j, Npy x)) (zip [0..<n] ys))) (test_output_path d i)
           = Some (Npy (ys ! i))"
proof -
  let ?ks = "map (test_output_path d) [0..<n]"
  have z: "map (\<lambda>(j, x). (test_output_path d j, Npy x)) (zip [0..<n] ys) = zip ?ks (map Npy ys)"
    by (simp add: zip_map_map)
  have dk: "distinct ?ks"
    by (simp add: distinct_map inj_on_def test_output_path_inj)
  have len: "length ?ks = length (map Npy ys)" using assms by simp
  have df: "distinct (map fst (zip ?ks (map Npy ys)))" using dk len by (simp add: map_fst_zip)
  have "distinct (map fst (rev (zip ?ks (map Npy ys))))" using df by (simp add: rev_map[symmetric])
  then have "map_of (rev (zip ?ks (map Npy ys))) = map_of (zip ?ks (map Npy ys))"
    using df by (simp add: map_of_inject_set)
  moreover have "map_of (zip ?ks (map Npy ys)) (?ks ! i) = Some (map Npy ys ! i)"
    using len dk assms by (intro map_of_zip_nth) simp_all
  ultimately show ?thesis using assms by (simp add: z)
qed

lemma map_of_test_outputs_None:
  assumes "\<And>j. p \<noteq> test_output_path d j"
  shows "map_of (rev (map (\<lambda>(j, x). (test_output_path d j, Npy x)) (zip [0..<n] ys))) p = None"
proof -
  have "p \<notin> fst ` set (rev (map (\<lambda>(j, x). (test_output_path d j, Npy x)) (zip [0..<n] ys)))"
  proof
    assume "p \<in> fst ` set (rev (map (\<lambda>(j, x). (test_output_path d j, Npy x)) (zip [0..<n] ys)))"
    then obtain j where "p = test_output_path d j" by auto
    with assms show False by blast
  qed
  then show ?thesis by (rule iffD2[OF map_of_eq_None_iff])
qed

subsection \<open>The test tensors\<close>

text \<open>
  C10. After every successful export the file \<^verbatim>\<open>test_input.npy\<close> of the output directory
  holds the test input with its axes moved and not normalized, and the file
  \<^verbatim>\<open>test_output{i}.npy\<close> holds, with its axes moved, the \<open>i\<close>-th output that the saved
  model predicts on the test input that is first normalized with the two percentiles and
  then has its axes moved. These tensors are the only ones that the export writes.
\<close>

theorem export_test_tensors:
  assumes "export_bioimageio env m outpath ti ia nm mode pw mn mx ov w = (Inr u, w')"
  shows "\<exists>outdir zip_path w1 reqs wname normalized moved_in ti' moved_norm outs moved_outs.
     move_image_axes env ti (upper ia) (''S'' @ lower (config_axes m)) = Inr moved_in \<and>
     normalize_img env ti mn mx = Inr ti' \<and>
     move_image_axes env ti' (upper ia) (''S'' @ lower (config_axes m)) = Inr moved_norm \<and>
     saved_model_predict env (Some wname) moved_norm = Inr outs \<and>
     axes_check_and_normalize env (axes_out m) = Inr normalized \<and>
     map (\<lambda>out. move_image_axes env out (lower normalized) (CHR ''b'' # lower normalized)) outs
       = map Inr moved_outs \<and>
     (path_suffix outpath = [] \<and> outdir = outpath \<and> zip_path = joinpath outpath (nm @ ''.zip'')
      \<or> path_suffix outpath = ''.zip'' \<and> outdir = parent outpath \<and> zip_path = outpath) \<and>
     mkdir outdir w = (Inr (), w1) \<and>
     files w' = files (write_files
           ([(joinpath outdir ''requirements.txt'', Text (join [CHR 0x0A] (''tensorflow'' # reqs))),
             (joinpath outdir ''README.md'', Text doc_text),
             (joinpath (logdir m) ''TF_SavedModel.zip'', SavedModelZip (Some wname)),
             (joinpath outdir ''test_input.npy'', Npy moved_in),
             (joinpath (logdir m) ''tf_model'', Assets (Some wname))]
            @ map (\<lambda>(j, x). (test_output_path outdir j, Npy x)) (zip [0..<length outs] moved_outs)
            @ [(zip_path, Archive)]) w1) \<and>
     map_of (files w') (joinpath outdir ''test_input.npy'') = Some (Npy moved_in, clock w) \<and>
     (\<forall>i < length outs.
        map_of (files w') (test_output_path outdir i) = Some (Npy (moved_outs ! i), clock w))"
proof -
  from export_success[OF assms] obtain outdir zip_path w1 reqs wname normalized moved_in ti' moved_norm
      outs moved_outs kwargs where
    res: "path_suffix outpath = [] \<and> outdir = outpath \<and> zip_path = joinpath outpath (nm @ ''.zip'')
      \<or> path_suffix outpath = ''.zip'' \<and> outdir = parent outpath \<and> zip_path = outpath" and
    mk: "mkdir outdir w = (Inr (), w1)" and
    mode: "mode = ''tensorflow_saved_model_bundle''" and
    rq: "pkg_requires env = Inr reqs" and
    gn: "get_weights_name m pw (files (write_files
           [(joinpath outdir ''requirements.txt'', Text (join [CHR 0x0A] (''tensorflow'' # reqs))),
            (joinpath outdir ''README.md'', Text doc_text)] w1)) = Inr wname" and
    nz: "axes_check_and_normalize env (axes_out m) = Inr normalized" and
    mi: "move_image_axes env ti (upper ia) (''S'' @ lower (config_axes m)) = Inr moved_in" and
    no: "normalize_img env ti mn mx = Inr ti'" and
    mn: "move_image_axes env ti' (upper ia) (''S'' @ lower (config_axes m)) = Inr moved_norm" and
    pr: "saved_model_predict env (Some wname) moved_norm = Inr outs" and
    mo: "map (\<lambda>out. move_image_axes env out (lower normalized) (CHR ''b'' # lower normalized)) outs
       = map Inr moved_outs" and
    files: "files w' = files (write_files
           ([(joinpath outdir ''requirements.txt'', Text (join [CHR 0x0A] (''tensorflow'' # reqs))),
             (joinpath outdir ''README.md'', Text doc_text),
             (joinpath (logdir m) ''TF_SavedModel.zip'', SavedModelZip (Some wname)),
             (joinpath outdir ''test_input.npy'', Npy moved_in),
             (joinpath (logdir m) ''tf_model'', Assets (Some wname))]
            @ map (\<lambda>(j, x). (test_output_path outdir j, Npy x)) (zip [0..<length outs] moved_outs)
            @ [(zip_path, Archive)]) w1)" and
    calls: "calls w' = calls w @ [BuildModel nm zip_path kwargs]" and
    look: "\<forall>(k, v) \<in> set
         [(''dependencies'', VStr (''pip:'' @ path_str (joinpath outdir ''requirements.txt''))),
          (''documentation'', VPath (joinpath outdir ''README.md'')),
          (''weight_uri'', VPath (joinpath (logdir m) ''TF_SavedModel.zip'')),
          (''test_inputs'', VList [VPath (joinpath outdir ''test_input.npy'')]),
          (''test_outputs'', VList (map VPath (map (test_output_path outdir) [0..<length outs]))),
          (''input_axes'', VList [VStr (CHR ''b'' # lower (config_axes m))]),
          (''output_axes'', VList [VStr (CHR ''b'' # lower normalized)])].
        k \<notin> fst ` set ov \<longrightarrow> map_of kwargs k = Some v"
    by (elim exE conjE) auto
  have ck: "clock w1 = clock w" using mkdir_Inr[OF mk] by simp
  have len: "length moved_outs = length outs"
    using arg_cong[OF mo, of length] by simp
  have z1: "zip_path \<noteq> joinpath outdir ''test_input.npy''"
    using archive_not_npy[OF res, of "''test_input''"] by simp
  have z2: "zip_path \<noteq> test_output_path outdir i" for i
    using archive_not_npy[OF res, of "''test_output'' @ str_of_nat i"] by (simp add: test_output_path_def)
  have t1: "joinpath outdir ''test_input.npy'' \<noteq> test_output_path outdir j" for j
    by (simp add: test_output_path_def joinpath_eq_iff)
  have t2: "joinpath (logdir m) ''tf_model'' \<noteq> joinpath outdir ''test_input.npy''"
    by (simp add: joinpath_eq_iff)
  have inp: "map_of (files w') (joinpath outdir ''test_input.npy'') = Some (Npy moved_in, clock w)"
    using z1 t2 map_of_test_outputs_None[of "joinpath outdir ''test_input.npy''" outdir "length outs" moved_outs, OF t1]
    by (simp add: files map_of_write_files ck map_of_append map_add_def del: map_of_eq_None_iff)
  have outp: "\<forall>i < length outs.
        map_of (files w') (test_output_path outdir i) = Some (Npy (moved_outs ! i), clock w)"
  proof (intro allI impI)
    fix i assume i: "i < length outs"
    from map_of_test_outputs[OF len i, of outdir] z2[of i]
    show "map_of (files w') (test_output_path outdir i) = Some (Npy (moved_outs ! i), clock w)"
      by (simp add: files map_of_write_files ck map_of_append map_add_def)
  qed
  show ?thesis
    by (intro exI conjI) (fact mi no mn pr nz mo res mk files inp outp)+
qed

theorem export_test_tensors_witness:
  "export_bioimageio ex_env ex_model (Path [] [''out'']) 7 ''YX'' ''bm'' ''tensorflow_saved_model_bundle''
     ''best'' 1 100 [] ex_world = (Inr (), ex_final) \<and>
   (\<exists>moved_in ti' moved_norm outs moved_outs.
      move_image_axes ex_env 7 (upper ''YX'') (''S'' @ lower (config_axes ex_model)) = Inr moved_in \<and>
      normalize_img ex_env 7 1 100 = Inr ti' \<and>
      move_image_axes ex_env ti' (upper ''YX'') (''S'' @ lower (config_axes ex_model)) = Inr moved_norm \<and>
      saved_model_predict ex_env (Some ''weights_best.h5'') moved_norm = Inr outs \<and>
      moved_in = 7 \<and> ti' = 107 \<and> outs = [214, 215] \<and> moved_outs = [214, 215] \<and>
      (0::nat) < length outs \<and> (1::nat) < length outs \<and>
      map_of (files ex_final) (Path [] [''out'', ''test_input.npy'']) = Some (Npy moved_in, 10) \<and>
      map_of (files ex_final) (Path [] [''out'', ''test_output0.npy'']) = Some (Npy (moved_outs ! 0), 10) \<and>
      map_of (files ex_final) (Path [] [''out'', ''test_output1.npy'']) = Some (Npy (moved_outs ! 1), 10))"
proof -
  from export_test_tensors[OF ex_export] obtain moved_in ti' moved_norm outs moved_outs wname where
    a: "move_image_axes ex_env 7 (upper ''YX'') (''S'' @ lower (config_axes ex_model)) = Inr moved_in" and
    b: "normalize_img ex_env 7 1 100 = Inr ti'" and
    c: "move_image_axes ex_env ti' (upper ''YX'') (''S'' @ lower (config_axes ex_model)) = Inr moved_norm" and
    d: "saved_model_predict ex_env (Some wname) moved_norm = Inr outs" and
    e: "map (\<lambda>out. move_image_axes ex_env out (lower ''YXC'') (CHR ''b'' # lower ''YXC'')) outs = map Inr moved_outs"
    by (elim exE conjE) (auto simp: ex_env_def ex_model_def)
  have a': "moved_in = 7" using a by (simp add: ex_env_def)
  have b': "ti' = 107" using b by (simp add: ex_env_def)
  have c': "moved_norm = 107" using c b' by (simp add: ex_env_def)
  have d': "outs = [214, 215]" using d c' by (simp add: ex_env_def)
  have e': "moved_outs = [214, 215]" using e d' by (auto simp: ex_env_def Cons_eq_map_conv)
  have d'': "saved_model_predict ex_env (Some ''weights_best.h5'') moved_norm = Inr outs"
    using d by (simp add: ex_env_def)
  have f: "map_of (files ex_final) (Path [] [''out'', ''test_input.npy'']) = Some (Npy 7, 10)"
       "map_of (files ex_final) (Path [] [''out'', ''test_output0.npy'']) = Some (Npy 214, 10)"
       "map_of (files ex_final) (Path [] [''out'', ''test_output1.npy'']) = Some (Npy 215, 10)"
    by (simp_all add: ex_final_def ex_best_def ex_last_def)
  show ?thesis
    using ex_export a b c d'' a' b' d' e' f
    by (intro conjI exI[of _ moved_in] exI[of _ ti'] exI[of _ moved_norm] exI[of _ outs] exI[of _ moved_outs]) simp_all
qed

end
